theory Spec2Isabelle
  imports Complex_Main "HOL-Library.Monad_Syntax"
begin

section \<open>Data model of RooUnfold (RooUnfold.cxx)\<close>

text \<open>
  The base class \<open>RooUnfold\<close> is embedded by explicit state passing. A \<open>Double_t\<close> is
  the real number it stands for, and every arithmetic operation on \<open>Double_t\<close> returns
  the exact result rounded to binary64 (\<open>rnd\<close> below). \<open>TVectorD\<close> is a list of such
  numbers and \<open>TMatrixD\<close> a list of rows. Bin counts (\<open>Int_t\<close>, never negative) are
  natural numbers; the toy count keeps its sign, since the code compares it with 1.

  A function that may not return normally (a null \<open>_res\<close> dereferenced, the resampling
  loop of \<open>RunToy\<close>) returns an \<open>option\<close>, \<open>None\<close> standing for "no normal return".
\<close>

subsection \<open>Arithmetic of \<open>Double_t\<close>\<close>

text \<open>Rounding to the nearest binary64 number, ties to the even significand: a number
  \<open>x\<close> with \<open>2\<^sup>e \<le> |x| < 2\<^sup>e\<^sup>+\<^sup>1\<close> is rounded to a multiple of \<open>2\<^sup>e\<^sup>-\<^sup>5\<^sup>2\<close>, and to
  a multiple of \<open>2\<^sup>-\<^sup>1\<^sup>0\<^sup>7\<^sup>4\<close> below the normal range. Overflow, infinities and NaN are not
  modelled (the model keeps the finite rounded value), and neither is the sign of zero.
  Each operation rounds once, as compiled without fused multiply-add.\<close>

definition expo :: "real \<Rightarrow> int" where
  "expo x = \<lfloor>log 2 \<bar>x\<bar>\<rfloor>"

definition round_even :: "real \<Rightarrow> int" where
  "round_even y =
     (let f = \<lfloor>y\<rfloor>
      in if y - of_int f < 1 / 2 then f
         else if 1 / 2 < y - of_int f then f + 1
         else if even f then f else f + 1)"

definition ulp_exp :: "real \<Rightarrow> int" where
  "ulp_exp x = max (expo x) (- 1022) - 52"

definition rnd :: "real \<Rightarrow> real" where
  "rnd x = (if x = 0 then 0 else of_int (round_even (x / 2 powi ulp_exp x)) * 2 powi ulp_exp x)"

definition d_add :: "real \<Rightarrow> real \<Rightarrow> real" where
  "d_add x y = rnd (x + y)"

definition d_sub :: "real \<Rightarrow> real \<Rightarrow> real" where
  "d_sub x y = rnd (x - y)"

definition d_mul :: "real \<Rightarrow> real \<Rightarrow> real" where
  "d_mul x y = rnd (x * y)"

definition d_div :: "real \<Rightarrow> real \<Rightarrow> real" where
  "d_div x y = rnd (x / y)"

definition d_sqrt :: "real \<Rightarrow> real" where
  "d_sqrt x = rnd (sqrt x)"

type_synonym TVectorD = "real list"
type_synonym TMatrixD = "real list list"

text \<open>A histogram as this file reads it: its shape, and content and error of the bin that
  \<open>RooUnfoldResponse::GetBin (h, i, _overflow)\<close> gives for the vector index \<open>i\<close>.\<close>

record TH1 =
  Dimension :: nat
  NbinsX :: nat
  NbinsY :: nat
  NbinsZ :: nat
  BinContent :: "nat \<Rightarrow> real"
  BinError :: "nat \<Rightarrow> real"

record RooUnfoldResponse =
  NbinsMeasured :: nat
  NbinsTruth :: nat
  UseOverflowStatus :: bool
  res_Hmeasured :: TH1
  res_Htruth :: TH1

datatype ErrorTreatment = kNoError | kErrors | kCovariance | kCovToy | kOtherTreatment int

text \<open>Call counts of the virtual compute hooks and of \<open>RunToy\<close>: instrumentation, not
  fields of the class. No modelled function reads them.\<close>

record calls =
  n_Unfold :: nat
  n_GetErrors :: nat
  n_GetCov :: nat
  n_GetErrMat :: nat
  n_RunToy :: nat

text \<open>The instance. \<open>cerr\<close> is the error stream and \<open>gRandom\<close> the process-wide random
  generator; both are carried in the state because the member functions write to them.\<close>

record 'g RooUnfold =
  res :: "RooUnfoldResponse option"
  meas :: "TH1 option"
  vMes :: "TVectorD option"
  eMes :: "TVectorD option"
  covMes :: "TMatrixD option"
  covL :: "TMatrixD option"
  nm :: nat
  nt :: nat
  verbose :: int
  overflow :: nat
  NToys :: int
  unfolded :: bool
  haveCov :: bool
  haveCovMes :: bool
  fail :: bool
  have_err_mat :: bool
  haveErrors :: bool
  rec :: TVectorD
  variances :: TVectorD
  cov :: TMatrixD
  err_mat :: TMatrixD
  LL :: real
  cerr :: "string list"
  gRandom :: 'g
  counts :: calls

subsection \<open>Vectors and matrices of ROOT, as far as this file uses them\<close>

definition TVectorD_new :: "nat \<Rightarrow> TVectorD" where
  "TVectorD_new n = replicate n 0"

definition TMatrixD_new :: "nat \<Rightarrow> nat \<Rightarrow> TMatrixD" where
  "TMatrixD_new r c = replicate r (replicate c 0)"

text \<open>\<open>ResizeTo\<close> keeps the overlapping part of the old contents and fills new elements
  with zero (TVectorT.cxx, TMatrixT.cxx).\<close>

definition VResizeTo :: "nat \<Rightarrow> TVectorD \<Rightarrow> TVectorD" where
  "VResizeTo n v = take n v @ replicate (n - length v) 0"

definition MResizeTo :: "nat \<Rightarrow> nat \<Rightarrow> TMatrixD \<Rightarrow> TMatrixD" where
  "MResizeTo r c m = map (VResizeTo c) (take r m) @ replicate (r - length m) (replicate c 0)"

definition GetNrows :: "TMatrixD \<Rightarrow> nat" where
  "GetNrows m = length m"

definition GetNcols :: "TMatrixD \<Rightarrow> nat" where
  "GetNcols m = (case m of [] \<Rightarrow> 0 | r # _ \<Rightarrow> length r)"

text \<open>\<open>m(i,j) = x\<close> for an index inside the matrix.\<close>

definition mset :: "TMatrixD \<Rightarrow> nat \<Rightarrow> nat \<Rightarrow> real \<Rightarrow> TMatrixD" where
  "mset m i j x = m[i := (m ! i)[j := x]]"

subsection \<open>Construction and reset\<close>

text \<open>\<open>Init\<close> after \<open>Destroy\<close>: pointers null, counts zero, flags false, 50 toys. The
  result caches \<open>_rec\<close>, \<open>_variances\<close>, \<open>_cov\<close> and \<open>_err_mat\<close> are members that
  neither function touches.\<close>

definition Reset :: "'g RooUnfold \<Rightarrow> 'g RooUnfold" where
  "Reset st = st\<lparr>res := None, meas := None, vMes := None, eMes := None,
                 covMes := None, covL := None, nm := 0, nt := 0, verbose := 1, overflow := 0,
                 unfolded := False, haveCov := False, haveCovMes := False, fail := False,
                 have_err_mat := False, haveErrors := False, NToys := 50, LL := 0\<rparr>"

definition SetResponse :: "RooUnfoldResponse \<Rightarrow> 'g RooUnfold \<Rightarrow> 'g RooUnfold" where
  "SetResponse r st =
     (let ov = (if UseOverflowStatus r then 1 else 0)
      in st\<lparr>res := Some r, overflow := ov,
            nm := NbinsMeasured r + 2 * ov, nt := NbinsTruth r + 2 * ov\<rparr>)"

definition SetMeasured :: "TH1 \<Rightarrow> 'g RooUnfold \<Rightarrow> 'g RooUnfold" where
  "SetMeasured h st = st\<lparr>meas := Some h, vMes := None, eMes := None\<rparr>"

definition Setup :: "RooUnfoldResponse \<Rightarrow> TH1 \<Rightarrow> 'g RooUnfold \<Rightarrow> 'g RooUnfold" where
  "Setup r h st = SetMeasured h (SetResponse r (Reset st))"

text \<open>\<open>SetMeasuredCov\<close>: the errors become the square roots of the positive diagonal
  entries (zero elsewhere), the matrix is stored, and the Cholesky factor is dropped.\<close>

definition SetMeasuredCov :: "TMatrixD \<Rightarrow> 'g RooUnfold \<Rightarrow> 'g RooUnfold" where
  "SetMeasuredCov c st =
     st\<lparr>covL := None,
        eMes := Some (fold (\<lambda>i v. if c ! i ! i > 0 then v[i := d_sqrt (c ! i ! i)] else v)
                        [0..<nm st] (TVectorD_new (nm st))),
        covMes := Some c, haveCovMes := True\<rparr>"

definition SetNToys :: "int \<Rightarrow> 'g RooUnfold \<Rightarrow> 'g RooUnfold" where
  "SetNToys n st = st\<lparr>NToys := n\<rparr>"

text \<open>Modelled from the spec: \<open>RooUnfoldResponse::H2V\<close> and \<open>H2VE\<close> are defined in
  RooUnfoldResponse.cxx, which is not among the sources. The spec's data model has the
  measured distribution as the sequence of its bin contents and errors, as many as the
  response has measured bins, two more when overflow bins are included. A null histogram
  gives zeros.\<close>

definition H2V :: "TH1 option \<Rightarrow> nat \<Rightarrow> nat \<Rightarrow> TVectorD" where
  "H2V h nb ov = (case h of None \<Rightarrow> TVectorD_new (nb + 2 * ov)
                  | Some hh \<Rightarrow> map (BinContent hh) [0..<nb + 2 * ov])"

definition H2VE :: "TH1 option \<Rightarrow> nat \<Rightarrow> nat \<Rightarrow> TVectorD" where
  "H2VE h nb ov = (case h of None \<Rightarrow> TVectorD_new (nb + 2 * ov)
                   | Some hh \<Rightarrow> map (BinError hh) [0..<nb + 2 * ov])"

text \<open>Modelled from the spec: \<open>Vmeasured\<close> and \<open>Emeasured\<close> are defined in RooUnfold.h,
  which is not among the sources. They give the measured distribution as vectors: the
  cached \<open>_vMes\<close> or \<open>_eMes\<close> (the members that \<open>SetMeasured\<close> deletes and
  \<open>SetMeasuredCov\<close> fills), computed from the measured histogram when there is none.\<close>

definition Vmeasured :: "'g RooUnfold \<Rightarrow> (TVectorD \<times> 'g RooUnfold) option" where
  "Vmeasured st =
     (case vMes st of Some v \<Rightarrow> Some (v, st)
      | None \<Rightarrow>
         (case res st of None \<Rightarrow> None
          | Some r \<Rightarrow> (let v = H2V (meas st) (NbinsMeasured r) (overflow st)
                       in Some (v, st\<lparr>vMes := Some v\<rparr>))))"

definition Emeasured :: "'g RooUnfold \<Rightarrow> (TVectorD \<times> 'g RooUnfold) option" where
  "Emeasured st =
     (case eMes st of Some v \<Rightarrow> Some (v, st)
      | None \<Rightarrow>
         (case res st of None \<Rightarrow> None
          | Some r \<Rightarrow> (let v = H2VE (meas st) (NbinsMeasured r) (overflow st)
                       in Some (v, st\<lparr>eMes := Some v\<rparr>))))"

subsection \<open>The lazy-evaluation state machine\<close>

text \<open>The virtual functions a subclass overrides. \<open>None\<close>: the hook does not return.\<close>

record 'g hooks =
  h_Unfold :: "'g RooUnfold \<Rightarrow> 'g RooUnfold option"
  h_GetErrors :: "'g RooUnfold \<Rightarrow> 'g RooUnfold option"
  h_GetCov :: "'g RooUnfold \<Rightarrow> 'g RooUnfold option"
  h_GetErrMat :: "'g RooUnfold \<Rightarrow> 'g RooUnfold option"

text \<open>A virtual call, counted: whatever the hook does, the count after the call is the
  count before it plus one.\<close>

definition call_Unfold :: "('g RooUnfold \<Rightarrow> 'g RooUnfold option) \<Rightarrow> 'g RooUnfold \<Rightarrow> 'g RooUnfold option" where
  "call_Unfold f st =
     map_option (\<lambda>s. s\<lparr>counts := (counts s)\<lparr>n_Unfold := n_Unfold (counts st) + 1\<rparr>\<rparr>)
       (f st)"

definition call_GetErrors :: "('g RooUnfold \<Rightarrow> 'g RooUnfold option) \<Rightarrow> 'g RooUnfold \<Rightarrow> 'g RooUnfold option" where
  "call_GetErrors f st =
     map_option (\<lambda>s. s\<lparr>counts := (counts s)\<lparr>n_GetErrors := n_GetErrors (counts st) + 1\<rparr>\<rparr>)
       (f st)"

definition call_GetCov :: "('g RooUnfold \<Rightarrow> 'g RooUnfold option) \<Rightarrow> 'g RooUnfold \<Rightarrow> 'g RooUnfold option" where
  "call_GetCov f st =
     map_option (\<lambda>s. s\<lparr>counts := (counts s)\<lparr>n_GetCov := n_GetCov (counts st) + 1\<rparr>\<rparr>)
       (f st)"

definition call_GetErrMat :: "('g RooUnfold \<Rightarrow> 'g RooUnfold option) \<Rightarrow> 'g RooUnfold \<Rightarrow> 'g RooUnfold option" where
  "call_GetErrMat f st =
     map_option (\<lambda>s. s\<lparr>counts := (counts s)\<lparr>n_GetErrMat := n_GetErrMat (counts st) + 1\<rparr>\<rparr>)
       (f st)"

definition shape_matches :: "TH1 \<Rightarrow> TH1 \<Rightarrow> bool" where
  "shape_matches m r \<longleftrightarrow>
     \<not> (Dimension m \<noteq> Dimension r \<or> NbinsX m \<noteq> NbinsX r \<or>
        NbinsY m \<noteq> NbinsY r \<or> NbinsZ m \<noteq> NbinsZ r)"

text \<open>The first half of \<open>UnfoldWithErrors\<close>, entered when \<open>_unfolded\<close> is false and
  \<open>_fail\<close> is false: the shape warning, then the virtual \<open>Unfold\<close>.\<close>

definition run_Unfold :: "'g hooks \<Rightarrow> 'g RooUnfold \<Rightarrow> 'g RooUnfold option" where
  "run_Unfold hk st =
     (case (res st, meas st) of
        (Some r, Some m) \<Rightarrow>
          call_Unfold (h_Unfold hk)
            (if shape_matches m (res_Hmeasured r) then st
             else st\<lparr>cerr := cerr st @ [''Warning: measured histogram does not match measured histogram from RooUnfoldResponse'']\<rparr>)
      | _ \<Rightarrow> None)"

text \<open>The second half: the \<open>switch\<close> on the error treatment.\<close>

definition run_errors :: "'g hooks \<Rightarrow> ErrorTreatment \<Rightarrow> 'g RooUnfold \<Rightarrow> (bool \<times> 'g RooUnfold) option" where
  "run_errors hk withError st =
     (case withError of
        kErrors \<Rightarrow> do {
          s \<leftarrow> (if \<not> haveErrors st then call_GetErrors (h_GetErrors hk) st else Some st);
          Some (haveErrors s, s) }
      | kCovariance \<Rightarrow> do {
          s \<leftarrow> (if \<not> haveCov st then call_GetCov (h_GetCov hk) st else Some st);
          Some (haveCov s, s) }
      | kCovToy \<Rightarrow> do {
          s \<leftarrow> (if \<not> have_err_mat st then call_GetErrMat (h_GetErrMat hk) st else Some st);
          Some (have_err_mat s, s) }
      | _ \<Rightarrow> Some (True, st))"

definition UnfoldWithErrors :: "'g hooks \<Rightarrow> ErrorTreatment \<Rightarrow> 'g RooUnfold \<Rightarrow> (bool \<times> 'g RooUnfold) option" where
  "UnfoldWithErrors hk withError st =
     (if \<not> unfolded st \<and> fail st then Some (False, st)
      else do {
        s1 \<leftarrow> (if \<not> unfolded st then run_Unfold hk st else Some st);
        if \<not> unfolded s1 then Some (False, s1\<lparr>fail := True\<rparr>)
        else do {
          (ok, s2) \<leftarrow> run_errors hk withError s1;
          Some (ok, if \<not> ok then s2\<lparr>fail := True\<rparr> else s2) } })"

subsection \<open>What the file takes from ROOT\<close>

text \<open>The random generator (\<open>gRandom->Poisson\<close>, \<open>gRandom->Gaus\<close>), the Cholesky factor
  \<open>U\<close> of \<open>TDecompChol\<close>, and determinant, condition number and solver of \<open>TDecompSVD\<close>
  are parameters. \<open>UsePoissonToys\<close> is the static switch of the class.
  \<open>RefoldLikelihood r m reco\<close> stands for the last step of \<open>Hreco\<close>,
  \<open>CalculateLikelihood (_meas, _res->ApplyToTruth (reco))\<close>: it reads both histograms by
  their global bin numbers and uses \<open>TMath::Log\<close> and \<open>TMath::LnGamma\<close>; its value only
  goes to \<open>_LL\<close>.\<close>

record 'g ROOT =
  Poisson :: "'g \<Rightarrow> real \<Rightarrow> real \<times> 'g"
  Gaus :: "'g \<Rightarrow> real \<Rightarrow> real \<Rightarrow> real \<times> 'g"
  CholU :: "TMatrixD \<Rightarrow> TMatrixD"
  Determinant :: "TMatrixD \<Rightarrow> real"
  SvdCondition :: "TMatrixD \<Rightarrow> real"
  SvdMultiSolve :: "TMatrixD \<Rightarrow> TVectorD \<Rightarrow> TVectorD"
  RefoldLikelihood :: "RooUnfoldResponse \<Rightarrow> TH1 \<Rightarrow> TH1 \<Rightarrow> real"
  UsePoissonToys :: bool

subsection \<open>The base class's own \<open>Unfold\<close>, \<open>GetCov\<close> and \<open>GetErrors\<close>\<close>

text \<open>The dummy unfolding. \<open>Vmeasured ()\<close> is called in the body of the loop; after its
  first call it returns the cached vector, so the model calls it once, and not at all when
  the loop has no iteration.\<close>

definition Unfold_base :: "'g RooUnfold \<Rightarrow> 'g RooUnfold option" where
  "Unfold_base st =
     (let r0 = VResizeTo (nt st) (rec st);
          nb = (if nm st < nt st then nm st else nt st)
      in if nb = 0 then Some (st\<lparr>rec := r0, unfolded := True\<rparr>)
         else do {
           (vm, s1) \<leftarrow> Vmeasured st;
           Some (s1\<lparr>rec := fold (\<lambda>i r. r[i := vm ! i]) [0..<nb] r0, unfolded := True\<rparr>) })"

definition GetMeasuredCov :: "'g RooUnfold \<Rightarrow> (TMatrixD \<times> 'g RooUnfold) option" where
  "GetMeasuredCov st =
     (case covMes st of Some c \<Rightarrow> Some (c, st)
      | None \<Rightarrow> do {
          (err, s1) \<leftarrow> Emeasured st;
          let c = fold (\<lambda>i m. mset m i i (d_mul (err ! i) (err ! i))) [0..<nm s1]
                    (TMatrixD_new (nm s1) (nm s1));
          Some (c, s1\<lparr>covMes := Some c\<rparr>) })"

definition GetCov_base :: "'g RooUnfold \<Rightarrow> 'g RooUnfold option" where
  "GetCov_base st = do {
     (covmeas, s1) \<leftarrow> GetMeasuredCov st;
     let nb = (if nm s1 < nt s1 then nm s1 else nt s1);
     let c0 = MResizeTo (nt s1) (nt s1) (cov s1);
     Some (s1\<lparr>cov := fold (\<lambda>i c. fold (\<lambda>j c. mset c i j (covmeas ! i ! j)) [0..<nb] c) [0..<nb] c0,
              haveCov := True\<rparr>) }"

text \<open>\<open>GetErrors\<close> calls the virtual \<open>GetCov\<close>: the argument \<open>gc\<close> is the \<open>GetCov\<close> of the
  class the instance belongs to.\<close>

definition GetErrors_base :: "('g RooUnfold \<Rightarrow> 'g RooUnfold option) \<Rightarrow> 'g RooUnfold \<Rightarrow> 'g RooUnfold option" where
  "GetErrors_base gc st = do {
     s1 \<leftarrow> (if \<not> haveCov st then call_GetCov gc st else Some st);
     if \<not> haveCov s1 then Some s1
     else Some (s1\<lparr>variances := fold (\<lambda>i v. v[i := cov s1 ! i ! i]) [0..<nt s1]
                                   (VResizeTo (nt s1) (variances s1)),
                   haveErrors := True\<rparr>) }"

subsection \<open>Toys\<close>

text \<open>The \<open>while\<close> loop of the Gaussian branch: draw again while the value is negative.\<close>

partial_function (option) resample :: "'g ROOT \<Rightarrow> real \<Rightarrow> real \<Rightarrow> real \<Rightarrow> 'g \<Rightarrow> (real \<times> 'g) option" where
  "resample R old_meas e cur g =
     (if cur < 0 then resample R old_meas e (d_add old_meas (fst (Gaus R g 0 e))) (snd (Gaus R g 0 e))
      else Some (cur, g))"

text \<open>The body of the loop over the measured bins, for bin \<open>i\<close>.\<close>

definition toy_bin :: "'g ROOT \<Rightarrow> TVectorD \<Rightarrow> nat \<Rightarrow> TVectorD \<times> 'g \<Rightarrow> (TVectorD \<times> 'g) option" where
  "toy_bin R err i a =
     (let newmeas = fst a; g = snd a; e = err ! i
      in if e \<le> 0 then Some (newmeas, g)
         else let old_meas = newmeas ! i
              in if UsePoissonToys R then
                   (let sig = d_div old_meas e; d = Poisson R g (d_mul sig sig)
                    in Some (newmeas[i := fst d], snd d))
                 else
                   (let d = Gaus R g 0 e
                    in map_option (\<lambda>(x, g'). (newmeas[i := x], g'))
                         (resample R old_meas e (d_add old_meas (fst d)) (snd d))))"

fun toy_bins :: "'g ROOT \<Rightarrow> TVectorD \<Rightarrow> nat list \<Rightarrow> TVectorD \<times> 'g \<Rightarrow> (TVectorD \<times> 'g) option" where
  "toy_bins R err [] a = Some a"
| "toy_bins R err (i # is) a = Option.bind (toy_bin R err i a) (toy_bins R err is)"

text \<open>\<open>n\<close> draws of \<open>Gaus (0, 1)\<close>, in order.\<close>

fun gaus_vector :: "'g ROOT \<Rightarrow> nat \<Rightarrow> 'g \<Rightarrow> TVectorD \<times> 'g" where
  "gaus_vector R 0 g = ([], g)"
| "gaus_vector R (Suc n) g =
     (let d = Gaus R g 0 1; r = gaus_vector R n (snd d) in (fst d # fst r, snd r))"

text \<open>\<open>v *= A\<close> (the product \<open>A v\<close>, each element a sum of products accumulated from
  zero in the order of the columns) and \<open>v += w\<close> of \<open>TVectorD\<close>.\<close>

definition row_times :: "TVectorD \<Rightarrow> TVectorD \<Rightarrow> real" where
  "row_times row v = fold (\<lambda>j t. d_add t (d_mul (row ! j) (v ! j))) [0..<length v] 0"

definition mat_vec :: "TMatrixD \<Rightarrow> TVectorD \<Rightarrow> TVectorD" where
  "mat_vec A v = map (\<lambda>row. row_times row v) A"

definition vec_add :: "TVectorD \<Rightarrow> TVectorD \<Rightarrow> TVectorD" where
  "vec_add v w = map2 d_add v w"

text \<open>\<open>RunToy\<close> returns a clone that has been given a smeared measurement. The model
  returns that measurement, and the instance with its mutable caches and the generator
  as the call leaves them.\<close>

definition RunToy :: "'g ROOT \<Rightarrow> 'g RooUnfold \<Rightarrow> (TVectorD \<times> 'g RooUnfold) option" where
  "RunToy R st =
     (if haveCovMes st then
        (case covMes st of None \<Rightarrow> None
         | Some cm \<Rightarrow>
            (let L = (case covL st of Some l \<Rightarrow> l | None \<Rightarrow> transpose (CholU R cm));
                 s1 = st\<lparr>covL := Some L\<rparr>;
                 d = gaus_vector R (nm s1) (gRandom s1)
             in do {
               (vm, s2) \<leftarrow> Vmeasured (s1\<lparr>gRandom := snd d\<rparr>);
               Some (vec_add (mat_vec L (fst d)) vm, s2) }))
      else do {
        (vm, s1) \<leftarrow> Vmeasured st;
        (err, s2) \<leftarrow> Emeasured s1;
        (newmeas, g) \<leftarrow> toy_bins R err [0..<nm s2] (vm, gRandom s2);
        Some (newmeas, s2\<lparr>gRandom := g\<rparr>) })"

definition call_RunToy :: "'g ROOT \<Rightarrow> 'g RooUnfold \<Rightarrow> (TVectorD \<times> 'g RooUnfold) option" where
  "call_RunToy R st =
     map_option (\<lambda>(x, s). (x, s\<lparr>counts := (counts s)\<lparr>n_RunToy := n_RunToy (counts st) + 1\<rparr>\<rparr>))
       (RunToy R st)"

text \<open>One pass of the accumulation over a toy result \<open>x\<close>.\<close>

definition accumulate :: "nat \<Rightarrow> TVectorD \<Rightarrow> TVectorD \<times> TMatrixD \<Rightarrow> TVectorD \<times> TMatrixD" where
  "accumulate n x acc =
     fold (\<lambda>i (xisum, xijsum).
             (let xi = x ! i
              in (xisum[i := d_add (xisum ! i) xi],
                  fold (\<lambda>j m. mset m i j (d_add (m ! i ! j) (d_mul xi (x ! j)))) [0..<n] xijsum)))
       [0..<n] acc"

text \<open>The loop over the toys; the first argument counts the toys still to run.
  \<open>vreco\<close> is \<open>Vreco\<close> of the clone (its unfolding), a function of this instance and of
  the measurement the clone was given.\<close>

fun toy_loop :: "'g ROOT \<Rightarrow> ('g RooUnfold \<Rightarrow> TVectorD \<Rightarrow> TVectorD option) \<Rightarrow> nat \<Rightarrow> nat
                 \<Rightarrow> (TVectorD \<times> TMatrixD) \<times> 'g RooUnfold \<Rightarrow> ((TVectorD \<times> TMatrixD) \<times> 'g RooUnfold) option" where
  "toy_loop R vreco n 0 a = Some a"
| "toy_loop R vreco n (Suc k) a = do {
     (newmeas, s) \<leftarrow> call_RunToy R (snd a);
     x \<leftarrow> vreco s newmeas;
     toy_loop R vreco n k (accumulate n x (fst a), s) }"

definition GetErrMat_base :: "'g ROOT \<Rightarrow> ('g RooUnfold \<Rightarrow> TVectorD \<Rightarrow> TVectorD option) \<Rightarrow> 'g RooUnfold \<Rightarrow> 'g RooUnfold option" where
  "GetErrMat_base R vreco st =
     (if NToys st \<le> 1 then Some st
      else
        (let n = nt st;
             s0 = st\<lparr>err_mat := MResizeTo n n (err_mat st)\<rparr>
         in do {
           ((xisum, xijsum), s1) \<leftarrow> toy_loop R vreco n (nat (NToys st)) ((TVectorD_new n, TMatrixD_new n n), s0);
           Some (s1\<lparr>err_mat :=
                      fold (\<lambda>i m. fold (\<lambda>j m. mset m i j
                                (d_div (d_sub (xijsum ! i ! j)
                                          (d_div (d_mul (xisum ! i) (xisum ! j)) (real_of_int (NToys st))))
                                   (real_of_int (NToys st - 1)))) [0..<n] m) [0..<n] (err_mat s1),
                    have_err_mat := True\<rparr>) }))"

text \<open>Modelled from the spec: \<open>Vreco\<close> is defined in RooUnfold.h, which is not among the
  sources; it gives the reconstructed vector, unfolding first if need be. The clone of a
  base-class instance is a new base-class instance (\<open>Clone\<close>), so its reconstructed vector
  is the dummy unfolding of the smeared measurement into an empty \<open>_rec\<close>. The functions
  above take \<open>Vreco\<close> of the clone as the parameter \<open>vreco\<close>; this is the instance of it used
  in the examples.\<close>

definition Vreco_base :: "'g RooUnfold \<Rightarrow> TVectorD \<Rightarrow> TVectorD option" where
  "Vreco_base st newmeas =
     (let nb = (if nm st < nt st then nm st else nt st)
      in Some (fold (\<lambda>i r. r[i := newmeas ! i]) [0..<nb] (VResizeTo (nt st) [])))"

text \<open>The virtual functions of the base class itself.\<close>

definition base_hooks :: "'g ROOT \<Rightarrow> ('g RooUnfold \<Rightarrow> TVectorD \<Rightarrow> TVectorD option) \<Rightarrow> 'g hooks" where
  "base_hooks R vreco = \<lparr>h_Unfold = Unfold_base, h_GetErrors = GetErrors_base GetCov_base,
                         h_GetCov = GetCov_base, h_GetErrMat = GetErrMat_base R vreco\<rparr>"

subsection \<open>Error matrices and vectors\<close>

text \<open>Assignment of a \<open>TMatrixD\<close>: ROOT copies only between matrices of the same shape and
  otherwise leaves the target as it is.\<close>

definition massign :: "TMatrixD \<Rightarrow> TMatrixD \<Rightarrow> TMatrixD" where
  "massign target source =
     (if GetNrows target = GetNrows source \<and> GetNcols target = GetNcols source then source
      else target)"

definition Ereco :: "'g hooks \<Rightarrow> ErrorTreatment \<Rightarrow> 'g RooUnfold \<Rightarrow> (TMatrixD \<times> 'g RooUnfold) option" where
  "Ereco hk withError st =
     (let Ereco_m = TMatrixD_new (nt st) (nt st)
      in do {
        (ok, s) \<leftarrow> UnfoldWithErrors hk withError st;
        if \<not> ok then Some (Ereco_m, s)
        else (case withError of
                kNoError \<Rightarrow> Some (fold (\<lambda>i m. mset m i i (rec s ! i)) [0..<nt s] Ereco_m, s)
              | kErrors \<Rightarrow> Some (fold (\<lambda>i m. mset m i i (variances s ! i)) [0..<nt s] Ereco_m, s)
              | kCovariance \<Rightarrow> Some (massign Ereco_m (cov s), s)
              | kCovToy \<Rightarrow> Some (massign Ereco_m (err_mat s), s)
              | kOtherTreatment n \<Rightarrow>
                  Some (Ereco_m, s\<lparr>cerr := cerr s @ [''Error, unrecognised error method'']\<rparr>)) })"

definition ErecoV :: "'g hooks \<Rightarrow> ErrorTreatment \<Rightarrow> 'g RooUnfold \<Rightarrow> (TVectorD \<times> 'g RooUnfold) option" where
  "ErecoV hk withError st =
     (let Ereco_v = TVectorD_new (nt st)
      in do {
        (ok, s) \<leftarrow> UnfoldWithErrors hk withError st;
        if \<not> ok then Some (Ereco_v, s)
        else (case withError of
                kNoError \<Rightarrow> Some (fold (\<lambda>i v. v[i := d_sqrt \<bar>rec s ! i\<bar>]) [0..<nt s] Ereco_v, s)
              | kErrors \<Rightarrow> Some (fold (\<lambda>i v. v[i := d_sqrt \<bar>variances s ! i\<bar>]) [0..<nt s] Ereco_v, s)
              | kCovariance \<Rightarrow> Some (fold (\<lambda>i v. v[i := d_sqrt \<bar>cov s ! i ! i\<bar>]) [0..<nt s] Ereco_v, s)
              | kCovToy \<Rightarrow> Some (fold (\<lambda>i v. v[i := d_sqrt \<bar>err_mat s ! i ! i\<bar>]) [0..<nt s] Ereco_v, s)
              | kOtherTreatment n \<Rightarrow>
                  Some (Ereco_v, s\<lparr>cerr := cerr s @ [''Error, unrecognised error method'']\<rparr>)) })"

subsection \<open>The reconstructed histogram\<close>

text \<open>\<open>Clone\<close> of the truth histogram followed by \<open>Reset\<close>: the same shape, all contents
  and errors zero.\<close>

definition TH1_Reset :: "TH1 \<Rightarrow> TH1" where
  "TH1_Reset h = h\<lparr>BinContent := (\<lambda>i. 0), BinError := (\<lambda>i. 0)\<rparr>"

definition Hreco :: "'g ROOT \<Rightarrow> 'g hooks \<Rightarrow> ErrorTreatment \<Rightarrow> 'g RooUnfold \<Rightarrow> (TH1 \<times> 'g RooUnfold) option" where
  "Hreco R hk withError st =
     (case res st of None \<Rightarrow> None
      | Some r \<Rightarrow>
         (let reco = TH1_Reset (res_Htruth r)
          in do {
            (ok, s) \<leftarrow> UnfoldWithErrors hk withError st;
            let withError1 = (if \<not> ok then kNoError else withError);
            if \<not> unfolded s then Some (reco, s)
            else
              (let reco1 =
                 fold (\<lambda>i h.
                         (let h1 = h\<lparr>BinContent := (BinContent h)(i := rec s ! i)\<rparr>
                          in if withError1 = kErrors
                             then h1\<lparr>BinError := (BinError h1)(i := d_sqrt \<bar>variances s ! i\<bar>)\<rparr>
                             else if withError1 = kCovariance
                             then h1\<lparr>BinError := (BinError h1)(i := d_sqrt \<bar>cov s ! i ! i\<bar>)\<rparr>
                             else if withError1 = kCovToy
                             then h1\<lparr>BinError := (BinError h1)(i := d_sqrt \<bar>err_mat s ! i ! i\<bar>)\<rparr>
                             else h1))
                   [0..<nt s] reco
               in (case (res s, meas s) of
                     (Some r1, Some m) \<Rightarrow> Some (reco1, s\<lparr>LL := RefoldLikelihood R r1 m reco1\<rparr>)
                   | _ \<Rightarrow> None)) }))"

subsection \<open>\<open>CutZeros\<close> and \<open>Chi2\<close>\<close>

text \<open>The first loop of \<open>CutZeros\<close>: the sum of row \<open>i\<close>, and the list \<open>diags\<close> of the rows
  whose sum is zero together with their number \<open>missed\<close>.\<close>

definition coltot :: "TMatrixD \<Rightarrow> nat \<Rightarrow> real" where
  "coltot ereco i = fold (\<lambda>j t. d_add t (ereco ! i ! j)) [0..<GetNrows ereco] 0"

definition zero_rows :: "TMatrixD \<Rightarrow> nat list \<times> nat" where
  "zero_rows ereco =
     fold (\<lambda>i (diags, missed). if coltot ereco i = 0 then (diags @ [i], missed + 1)
                                else (diags, missed))
       [0..<GetNrows ereco] ([], 0)"

text \<open>The second loop: a row listed in \<open>diags\<close> advances \<open>v\<close>; any other row \<open>i\<close> is
  written to row \<open>i - v\<close> of the result, column \<open>j\<close> taking \<open>ereco(i, j+v)\<close>. The result has
  \<open>y\<close> columns. On a square matrix, which is what \<open>Chi2\<close> passes, every index stays
  inside its matrix: \<open>v\<close> is at most the number of zero rows above row \<open>i\<close>.\<close>

definition cut_rows :: "TMatrixD \<Rightarrow> nat list \<Rightarrow> nat \<Rightarrow> TMatrixD \<Rightarrow> TMatrixD \<times> nat" where
  "cut_rows ereco diags y cut0 =
     fold (\<lambda>i (ereco_cut, v).
             if v < length diags \<and> diags ! v = i then (ereco_cut, v + 1)
             else (fold (\<lambda>j c. mset c (i - v) j (ereco ! i ! (j + v))) [0..<y] ereco_cut, v))
       [0..<GetNrows ereco] (cut0, 0)"

definition CutZeros :: "TMatrixD \<Rightarrow> TMatrixD" where
  "CutZeros ereco =
     (let diags = fst (zero_rows ereco); missed = snd (zero_rows ereco);
          x = GetNrows ereco - missed; y = GetNcols ereco - missed
      in fst (cut_rows ereco diags y (TMatrixD_new x y)))"

definition truth_given :: "TH1 \<Rightarrow> nat \<Rightarrow> bool" where
  "truth_given hTrue i \<longleftrightarrow> BinContent hTrue i \<noteq> 0 \<or> BinError hTrue i > 0"

definition warn_det :: "real \<Rightarrow> 'g RooUnfold \<Rightarrow> 'g RooUnfold" where
  "warn_det d s =
     (if \<bar>d\<bar> < rnd (1 / 100000) \<and> verbose s \<ge> 1
      then s\<lparr>cerr := cerr s @ [''Warning: Small Determinant of Covariance Matrix'',
                               ''Chi^2 may be invalid due to small determinant'']\<rparr>
      else s)"

definition warn_cond :: "real \<Rightarrow> 'g RooUnfold \<Rightarrow> 'g RooUnfold" where
  "warn_cond c s =
     (if c \<ge> 10 ^ 17 \<and> verbose s \<ge> 1
      then s\<lparr>cerr := cerr s @ [''Warning, very large matrix condition, chi^2 may be inaccurate'']\<rparr>
      else s)"

text \<open>The full-covariance branch of \<open>Chi2\<close> after the call of \<open>Ereco\<close>.\<close>

definition Chi2_cov :: "'g ROOT \<Rightarrow> TH1 \<Rightarrow> TMatrixD \<Rightarrow> 'g RooUnfold \<Rightarrow> real \<times> 'g RooUnfold" where
  "Chi2_cov R hTrue ereco s =
     (let res = fold (\<lambda>i r. if truth_given hTrue i then r[i := d_sub (rec s ! i) (BinContent hTrue i)] else r)
                  [0..<nt s] (TVectorD_new (nt s));
          ereco_cut = CutZeros ereco
      in if GetNrows ereco_cut \<le> 0 then (0, s)
         else
           (let res_matrix_cut =
                  fst (fold (\<lambda>i (rc, v). if ereco ! i ! i \<noteq> 0 then (rc[v := res ! i], v + 1) else (rc, v))
                         [0..<nt s] (TVectorD_new (GetNrows ereco_cut), 0));
                Ereco_det = Determinant R ereco_cut;
                res_matrix_t = res_matrix_cut;
                s1 = warn_det Ereco_det s;
                cond = SvdCondition R ereco_cut;
                solved = SvdMultiSolve R ereco_cut res_matrix_cut;
                chisq_nw = fold (\<lambda>k t. d_add t (d_mul (res_matrix_t ! k) (solved ! k)))
                             [0..<GetNrows ereco_cut] 0
            in (chisq_nw, warn_cond cond s1)))"

text \<open>The scalar branch after the call of \<open>ErecoV\<close>.\<close>

definition Chi2_diag :: "TH1 \<Rightarrow> TVectorD \<Rightarrow> 'g RooUnfold \<Rightarrow> real" where
  "Chi2_diag hTrue ereco s =
     fold (\<lambda>i chi2. if ereco ! i > 0 \<and> truth_given hTrue i
                     then (let ypull = d_div (d_sub (rec s ! i) (BinContent hTrue i)) (ereco ! i)
                           in d_add chi2 (d_mul ypull ypull))
                     else chi2)
       [0..<nt s] 0"

definition Chi2 :: "'g ROOT \<Rightarrow> 'g hooks \<Rightarrow> TH1 \<Rightarrow> ErrorTreatment \<Rightarrow> 'g RooUnfold \<Rightarrow> (real \<times> 'g RooUnfold) option" where
  "Chi2 R hk hTrue DoChi2 st =
     (if DoChi2 = kCovariance \<or> DoChi2 = kCovToy then do {
        (ereco, s) \<leftarrow> Ereco hk DoChi2 st;
        if \<not> unfolded s then Some (- 1, s) else Some (Chi2_cov R hTrue ereco s) }
      else do {
        (ereco, s) \<leftarrow> ErecoV hk DoChi2 st;
        if \<not> unfolded s then Some (- 1, s) else Some (Chi2_diag hTrue ereco s, s) })"

subsection \<open>The factory \<open>New\<close>\<close>

datatype Algorithm = kNone | kBayes | kSVD | kBinByBin | kTUnfold | kInvert | kDagostini
  | kOtherAlgorithm int

datatype unfold_class = RooUnfold_class | RooUnfoldBayes | RooUnfoldSvd | RooUnfoldBinByBin
  | RooUnfoldTUnfold | RooUnfoldInvert | RooUnfoldDagostini

text \<open>What \<open>New\<close> hands back: the class constructed and what was set on it afterwards.\<close>

record created =
  made :: unfold_class
  set_name :: "string option"
  set_title :: "string option"
  set_regparm :: "real option"

text \<open>\<open>have_tunfold\<close> is "\<open>NOTUNFOLD\<close> is not defined", \<open>have_dagostini\<close> is "\<open>HAVE_DAGOSTINI\<close>
  is defined". The result is the pointer (\<open>None\<close> for 0) and the lines written to \<open>cerr\<close>.\<close>

definition New :: "bool \<Rightarrow> bool \<Rightarrow> Algorithm \<Rightarrow> real \<Rightarrow> string option \<Rightarrow> string option
                   \<Rightarrow> created option \<times> string list" where
  "New have_tunfold have_dagostini alg regparm name title =
     (let finish = (\<lambda>c. (Some \<lparr>made = c, set_name = name, set_title = title,
                               set_regparm = (if regparm \<noteq> rnd (- (10 ^ 30)) then Some regparm else None)\<rparr>,
                         []))
      in case alg of
           kNone \<Rightarrow> finish RooUnfold_class
         | kBayes \<Rightarrow> finish RooUnfoldBayes
         | kSVD \<Rightarrow> finish RooUnfoldSvd
         | kBinByBin \<Rightarrow> finish RooUnfoldBinByBin
         | kTUnfold \<Rightarrow> if have_tunfold then finish RooUnfoldTUnfold
                       else (None, [''TUnfold library is not available''])
         | kInvert \<Rightarrow> finish RooUnfoldInvert
         | kDagostini \<Rightarrow> if have_dagostini then finish RooUnfoldDagostini
                         else (None, [''RooUnfoldDagostini is not available''])
         | kOtherAlgorithm n \<Rightarrow> (None, [''Unknown RooUnfold method'']))"

section \<open>Concrete instances\<close>

text \<open>A deterministic stand-in for the generator: the state counts the draws, the
  \<open>g\<close>-th Poisson draw is its mean plus \<open>g\<close>, a Gaussian draw is its mean. The solver is
  one for diagonal systems: it divides each entry of the right-hand side by the diagonal
  entry of its row, in \<open>Double_t\<close> arithmetic.\<close>

definition demo_ROOT :: "nat ROOT" where
  "demo_ROOT = \<lparr>Poisson = (\<lambda>g m. (m + real g, g + 1)), Gaus = (\<lambda>g m s. (m, g + 1)),
                 CholU = (\<lambda>m. m), Determinant = (\<lambda>m. 1), SvdCondition = (\<lambda>m. 1),
                 SvdMultiSolve = (\<lambda>A b. map (\<lambda>k. d_div (b ! k) (A ! k ! k)) [0..<length b]),
                 RefoldLikelihood = (\<lambda>r m h. 0), UsePoissonToys = True\<rparr>"

definition demo_hist :: TH1 where
  "demo_hist = \<lparr>Dimension = 1, NbinsX = 2, NbinsY = 1, NbinsZ = 1,
                 BinContent = (\<lambda>i. if i = 0 then 20 else if i = 1 then 9 else 0),
                 BinError = (\<lambda>i. if i = 0 then 2 else if i = 1 then 3 else 0)\<rparr>"

definition demo_res :: RooUnfoldResponse where
  "demo_res = \<lparr>NbinsMeasured = 2, NbinsTruth = 2, UseOverflowStatus = False,
                res_Hmeasured = demo_hist, res_Htruth = demo_hist\<rparr>"

definition blank :: "nat RooUnfold" where
  "blank = \<lparr>res = None, meas = None, vMes = None, eMes = None, covMes = None, covL = None,
             nm = 0, nt = 0, verbose = 1, overflow = 0, NToys = 50,
             unfolded = False, haveCov = False, haveCovMes = False, fail = False,
             have_err_mat = False, haveErrors = False,
             rec = [], variances = [], cov = [], err_mat = [], LL = 0, cerr = [], gRandom = 0,
             counts = \<lparr>n_Unfold = 0, n_GetErrors = 0, n_GetCov = 0, n_GetErrMat = 0, n_RunToy = 0\<rparr>\<rparr>"

text \<open>A new base-class instance on two bins, and the same with one toy.\<close>

definition demo_new :: "nat RooUnfold" where
  "demo_new = Setup demo_res demo_hist blank"

definition demo_one_toy :: "nat RooUnfold" where
  "demo_one_toy = SetNToys 1 demo_new"

text \<open>A subclass whose \<open>Unfold\<close> returns without setting \<open>_unfolded\<close>.\<close>

definition stuck_hooks :: "nat hooks" where
  "stuck_hooks = (base_hooks demo_ROOT Vreco_base)\<lparr>h_Unfold := Some\<rparr>"

text \<open>The instance after a first request whose unfolding failed.\<close>

definition demo_failed :: "nat RooUnfold" where
  "demo_failed = snd (the (UnfoldWithErrors stuck_hooks kNoError demo_new))"

text \<open>The instance after a request for the toy covariance with one toy.\<close>

definition demo_after_toy :: "nat RooUnfold" where
  "demo_after_toy = snd (the (UnfoldWithErrors (base_hooks demo_ROOT Vreco_base) kCovToy demo_one_toy))"

text \<open>The instance after a request for the diagonal errors.\<close>

definition demo_after_errors :: "nat RooUnfold" where
  "demo_after_errors = snd (the (UnfoldWithErrors (base_hooks demo_ROOT Vreco_base) kErrors demo_new))"

text \<open>A second response with one measured bin and two truth bins; the instance after a
  request for the covariance; and that instance set up again with the second response.\<close>

definition demo_narrow_res :: RooUnfoldResponse where
  "demo_narrow_res = \<lparr>NbinsMeasured = 1, NbinsTruth = 2, UseOverflowStatus = False,
                       res_Hmeasured = demo_hist, res_Htruth = demo_hist\<rparr>"

definition demo_after_cov :: "nat RooUnfold" where
  "demo_after_cov = snd (the (UnfoldWithErrors (base_hooks demo_ROOT Vreco_base) kCovariance demo_new))"

definition demo_reused :: "nat RooUnfold" where
  "demo_reused = Setup demo_narrow_res demo_hist demo_after_cov"

subsection \<open>The toy results, for stating what \<open>GetErrMat\<close> computes\<close>

text \<open>The reconstructed vectors of \<open>k\<close> toys run one after the other from the instance
  \<open>s\<close>, in the order of the loop of \<open>GetErrMat\<close>, and the instance after them.\<close>

fun toy_runs :: "'g ROOT \<Rightarrow> ('g RooUnfold \<Rightarrow> TVectorD \<Rightarrow> TVectorD option) \<Rightarrow> nat
                 \<Rightarrow> 'g RooUnfold \<Rightarrow> (TVectorD list \<times> 'g RooUnfold) option" where
  "toy_runs R vreco 0 s = Some ([], s)"
| "toy_runs R vreco (Suc k) s = do {
     (newmeas, s1) \<leftarrow> call_RunToy R s;
     x \<leftarrow> vreco s1 newmeas;
     (xs, s2) \<leftarrow> toy_runs R vreco k s1;
     Some (x # xs, s2) }"

text \<open>The sum of a list in \<open>Double_t\<close> arithmetic, accumulated from zero in the order of
  the list; and the formula of \<open>GetErrMat\<close> for entry \<open>(i, j)\<close> on the reconstructed
  vectors \<open>xs\<close> of \<open>N\<close> toys, the moments accumulated in the order of the toys and every
  operation rounded.\<close>

definition sum_d :: "real list \<Rightarrow> real" where
  "sum_d ys = fold (\<lambda>y t. d_add t y) ys 0"

definition toy_covariance :: "int \<Rightarrow> TVectorD list \<Rightarrow> nat \<Rightarrow> nat \<Rightarrow> real" where
  "toy_covariance N xs i j =
     d_div (d_sub (sum_d (map (\<lambda>x. d_mul (x ! i) (x ! j)) xs))
                  (d_div (d_mul (sum_d (map (\<lambda>x. x ! i) xs)) (sum_d (map (\<lambda>x. x ! j) xs)))
                         (real_of_int N)))
           (real_of_int (N - 1))"

text \<open>The empirical covariance of the spec, \<open>(\<Sum> x\<^sub>i x\<^sub>j - \<Sum> x\<^sub>i \<Sum> x\<^sub>j / N) / (N - 1)\<close>, over
  the real numbers.\<close>

definition empirical_covariance :: "int \<Rightarrow> TVectorD list \<Rightarrow> nat \<Rightarrow> nat \<Rightarrow> real" where
  "empirical_covariance N xs i j =
     ((\<Sum>x\<leftarrow>xs. x ! i * x ! j) - (\<Sum>x\<leftarrow>xs. x ! i) * (\<Sum>x\<leftarrow>xs. x ! j) / real_of_int N)
       / real_of_int (N - 1)"

text \<open>The instance with two toys.\<close>

definition demo_two_toys :: "nat RooUnfold" where
  "demo_two_toys = SetNToys 2 demo_after_cov"

text \<open>A base-class instance on one bin with two toys, and a generator whose \<open>g\<close>-th
  Poisson draw is \<open>1000014129 + g\<close>.\<close>

definition demo_one_res :: RooUnfoldResponse where
  "demo_one_res = \<lparr>NbinsMeasured = 1, NbinsTruth = 1, UseOverflowStatus = False,
                    res_Hmeasured = demo_hist, res_Htruth = demo_hist\<rparr>"

definition demo_big :: "nat RooUnfold" where
  "demo_big = SetNToys 2 (Setup demo_one_res demo_hist blank)"

definition demo_ROOT_big :: "nat ROOT" where
  "demo_ROOT_big = demo_ROOT\<lparr>Poisson := (\<lambda>g m. (1000014129 + real g, g + 1))\<rparr>"

subsection \<open>The perturbation of one bin, for stating what \<open>RunToy\<close> does\<close>

text \<open>\<open>toy_policy R e old new\<close>: the value \<open>new\<close> is what a bin with value \<open>old\<close> and error
  \<open>e\<close> may become. It is unchanged when \<open>e\<close> is not positive; in Poisson mode it is a
  Poisson draw of mean \<open>(old / e)\<^sup>2\<close>, stored as drawn; otherwise it is \<open>old\<close> plus a
  draw of \<open>Gaus (0, e)\<close> and not negative.\<close>

definition toy_policy :: "'g ROOT \<Rightarrow> real \<Rightarrow> real \<Rightarrow> real \<Rightarrow> bool" where
  "toy_policy R e old new \<longleftrightarrow>
     (if e \<le> 0 then new = old
      else if UsePoissonToys R
        then (\<exists>g. new = fst (Poisson R g (d_mul (d_div old e) (d_div old e))))
      else 0 \<le> new \<and> (\<exists>g. new = d_add old (fst (Gaus R g 0 e))))"

text \<open>A generator for the Gaussian mode: the \<open>g\<close>-th draw of \<open>Gaus (m, s)\<close> is
  \<open>m + s (g - 11)\<close>.\<close>

definition demo_ROOT_gaus :: "nat ROOT" where
  "demo_ROOT_gaus = demo_ROOT\<lparr>Gaus := (\<lambda>g m s. (m + s * (real g - 11), g + 1)),
                                UsePoissonToys := False\<rparr>"

subsection \<open>Diagonal covariance and an exact solver, for comparing the two paths of \<open>Chi2\<close>\<close>










text \<open>A base-class instance on three bins whose measured covariance has a zero bin between
  two correlated bins.\<close>

definition demo_three_res :: RooUnfoldResponse where
  "demo_three_res = \<lparr>NbinsMeasured = 3, NbinsTruth = 3, UseOverflowStatus = False,
                      res_Hmeasured = demo_hist, res_Htruth = demo_hist\<rparr>"

definition demo_three :: "nat RooUnfold" where
  "demo_three = SetMeasuredCov [[2, 0, 1], [0, 0, 0], [1, 0, 2]] (Setup demo_three_res demo_hist blank)"



section \<open>Rounding\<close>

text \<open>Rounding is the identity on the numbers \<open>k 2\<^sup>z\<close> with \<open>|k| < 2\<^sup>5\<^sup>3\<close> and
  \<open>z \<ge> -1074\<close>, among them the integers below \<open>2\<^sup>5\<^sup>3\<close>, and it is idempotent.\<close>

lemma round_even_int [simp]: "round_even (of_int m) = m"
  by (simp add: round_even_def)

lemma expo_eq:
  assumes "2 powi e \<le> \<bar>x\<bar>" and "\<bar>x\<bar> < 2 powi (e + 1)"
  shows "expo x = e"
proof -
  have pos: "0 < \<bar>x\<bar>" using assms(1) by (smt (verit) zero_less_power_int)
  have "2 powr (of_int e) \<le> \<bar>x\<bar> \<and> \<bar>x\<bar> < 2 powr (of_int e + 1)"
    using assms by (simp add: powr_real_of_int' add.commute powr_add power_int_add)
  then show ?thesis
    unfolding expo_def using floor_log_eq_powr_iff [of "\<bar>x\<bar>" 2 e] pos by simp
qed

lemma expo_bounds:
  assumes "x \<noteq> 0"
  shows "2 powi expo x \<le> \<bar>x\<bar>" and "\<bar>x\<bar> < 2 powi (expo x + 1)"
proof -
  have pos: "0 < \<bar>x\<bar>" using assms by simp
  from floor_log_eq_powr_iff [of "\<bar>x\<bar>" 2 "expo x"] pos
  have "2 powr (of_int (expo x)) \<le> \<bar>x\<bar> \<and> \<bar>x\<bar> < 2 powr (of_int (expo x) + 1)"
    by (simp add: expo_def)
  then show "2 powi expo x \<le> \<bar>x\<bar>" and "\<bar>x\<bar> < 2 powi (expo x + 1)"
    by (simp_all add: powr_real_of_int' add.commute powr_add power_int_add)
qed


lemma rnd_at:
  assumes "2 powi e \<le> \<bar>x\<bar>" and "\<bar>x\<bar> < 2 powi (e + 1)" and "- 1022 \<le> e"
  shows "rnd x = of_int (round_even (x / 2 powi (e - 52))) * 2 powi (e - 52)"
proof -
  have "x \<noteq> 0" using assms(1) by (smt (verit) zero_less_power_int abs_zero)
  moreover have "ulp_exp x = e - 52"
    using expo_eq [OF assms(1,2)] assms(3) by (simp add: ulp_exp_def)
  ultimately show ?thesis by (simp add: rnd_def)
qed

lemma rnd_fix:
  assumes "x = of_int k * 2 powi z" and "\<bar>k\<bar> < 2 ^ 53" and "- 1074 \<le> z"
  shows "rnd x = x"
proof (cases "x = 0")
  case True
  then show ?thesis by (simp add: rnd_def)
next
  case False
  let ?u = "ulp_exp x"
  have "2 powi expo x \<le> \<bar>x\<bar>" by (rule expo_bounds(1) [OF False])
  also have "\<bar>x\<bar> = of_int \<bar>k\<bar> * 2 powi z" by (simp add: assms(1) abs_mult)
  also have "\<dots> < 2 ^ 53 * 2 powi z"
  proof -
    have "(of_int \<bar>k\<bar> :: real) < 2 ^ 53" using assms(2) by (metis of_int_less_numeral_power_cancel_iff)
    then show ?thesis by (simp add: mult_strict_right_mono)
  qed
  also have "\<dots> = 2 powi (53 + z)" by (simp add: power_int_add)
  finally have "(2::real) powi expo x < 2 powi (53 + z)" .
  then have "expo x < 53 + z"
    using power_int_increasing [of "53 + z" "expo x" "2::real"] by (cases "expo x < 53 + z") auto
  with assms(3) have le: "?u \<le> z" by (simp add: ulp_exp_def)
  have "x / 2 powi ?u = of_int k * 2 powi (z - ?u)"
    by (simp add: assms(1) power_int_diff)
  also have "\<dots> = of_int (k * 2 ^ nat (z - ?u))"
    using le by (simp add: power_int_def)
  finally have eq: "x / 2 powi ?u = of_int (k * 2 ^ nat (z - ?u))" .
  have "round_even (x / 2 powi ?u) = k * 2 ^ nat (z - ?u)"
    unfolding eq by (rule round_even_int)
  then have "rnd x = of_int (k * 2 ^ nat (z - ?u)) * 2 powi ?u"
    using False by (simp add: rnd_def)
  also have "\<dots> = of_int k * (2 powi (z - ?u) * 2 powi ?u)"
    using le by (simp add: power_int_def)
  also have "\<dots> = x" by (simp add: assms(1) flip: power_int_add)
  finally show ?thesis .
qed

lemma rnd_int:
  assumes "x \<in> \<int>" and "\<bar>x\<bar> < 9007199254740992"
  shows "rnd x = x"
proof -
  from assms(1) obtain k where k: "x = of_int k" by (auto elim: Ints_cases)
  with assms(2) have "\<bar>k\<bar> < 2 ^ 53" by (simp flip: of_int_abs) 
  with k show ?thesis using rnd_fix [of x k 0] by simp
qed


lemma round_even_bounds: "\<lfloor>y\<rfloor> \<le> round_even y \<and> round_even y \<le> \<lfloor>y\<rfloor> + 1"
  by (simp add: round_even_def Let_def)

lemma rnd_rnd [simp]: "rnd (rnd x) = rnd x"
proof (cases "x = 0")
  case True
  then show ?thesis by (simp add: rnd_def)
next
  case False
  let ?z = "ulp_exp x"
  let ?y = "x / 2 powi ?z"
  let ?k = "round_even ?y"
  have r: "rnd x = of_int ?k * 2 powi ?z" using False by (simp add: rnd_def)
  have z: "- 1074 \<le> ?z" and ez: "expo x + 1 \<le> ?z + 53" by (simp_all add: ulp_exp_def)
  have "\<bar>x\<bar> < 2 powi (expo x + 1)" by (rule expo_bounds(2) [OF False])
  also have "\<dots> \<le> 2 powi (?z + 53)" using ez by (intro power_int_increasing) simp_all
  finally have "\<bar>x\<bar> / 2 powi ?z < 2 powi (?z + 53) / 2 powi ?z"
    by (simp add: divide_strict_right_mono)
  then have "\<bar>x\<bar> / 2 powi ?z < 2 ^ 53" by (simp add: power_int_add)
  moreover have "\<bar>?y\<bar> = \<bar>x\<bar> / 2 powi ?z" by (simp add: abs_divide)
  ultimately have ay: "\<bar>?y\<bar> < 2 ^ 53" by simp
  define f where "f = \<lfloor>?y\<rfloor>"
  have "- (2 ^ 53) \<le> f" and "f < 2 ^ 53"
    unfolding f_def using ay
    by (simp_all add: le_floor_iff floor_less_iff abs_less_iff del: abs_divide)
  moreover have "f \<le> ?k \<and> ?k \<le> f + 1"
    unfolding f_def by (rule round_even_bounds)
  ultimately have kb: "\<bar>?k\<bar> \<le> 2 ^ 53" by linarith
  show ?thesis
  proof (cases "\<bar>?k\<bar> < 2 ^ 53")
    case True
    show ?thesis by (rule rnd_fix [OF r True z])
  next
    case False
    with kb have "\<bar>?k\<bar> = 2 ^ 53" by simp
    then have "?k = 2 ^ 53 \<or> ?k = - (2 ^ 53)" by (simp add: abs_if split: if_splits)
    then obtain h :: int where h: "?k = h * 2" and hb: "\<bar>h\<bar> < 2 ^ 53"
    proof
      assume "?k = 2 ^ 53" then have "?k = 2 ^ 52 * 2 \<and> \<bar>(2::int) ^ 52\<bar> < 2 ^ 53" by simp
      then show ?thesis using that by blast
    next
      assume "?k = - (2 ^ 53)" then have "?k = (- (2 ^ 52)) * 2 \<and> \<bar>- ((2::int) ^ 52)\<bar> < 2 ^ 53" by simp
      then show ?thesis using that by blast
    qed
    have "rnd x = of_int h * 2 powi (?z + 1)"
      unfolding r h by (simp add: power_int_add)
    from rnd_fix [OF this hb] z show ?thesis by simp
  qed
qed


lemma rnd_0 [simp]: "rnd 0 = 0"
  by (simp add: rnd_def)

lemmas d_defs = d_add_def d_sub_def d_mul_def d_div_def d_sqrt_def

lemma sqrt_squares: "sqrt 9 = 3" "sqrt 16 = 4"
  using real_sqrt_abs [of 3] real_sqrt_abs [of 4] by simp_all

section \<open>Evaluation of the concrete instances\<close>

lemma demo_new_eval:
  "demo_new = blank\<lparr>res := Some demo_res, meas := Some demo_hist, nm := 2, nt := 2\<rparr>"
  by (simp add: demo_new_def Setup_def SetMeasured_def SetResponse_def Reset_def blank_def
      demo_res_def)

lemma upt2: "[0..<2] = [0, 1]"
  by (simp add: upt_rec)

lemmas demo_defs = SetNToys_def UnfoldWithErrors_def run_Unfold_def call_Unfold_def
  base_hooks_def demo_new_eval blank_def shape_matches_def demo_res_def Unfold_base_def
  Vmeasured_def H2V_def VResizeTo_def run_errors_def call_GetErrMat_def GetErrMat_base_def
  demo_hist_def upt2 Let_def eval_nat_numeral call_GetErrors_def call_GetCov_def
  GetErrors_base_def GetCov_base_def GetMeasuredCov_def Emeasured_def H2VE_def MResizeTo_def
  mset_def TMatrixD_new_def TVectorD_new_def d_defs rnd_int sqrt_squares

lemma demo_failed_eval:
  "demo_failed = demo_new\<lparr>fail := True, counts := (counts demo_new)\<lparr>n_Unfold := 1\<rparr>\<rparr>"
  by (simp add: demo_failed_def stuck_hooks_def demo_defs)

lemma demo_after_toy_eval:
  "demo_after_toy = demo_new\<lparr>NToys := 1, vMes := Some [20, 9], rec := [20, 9],
     unfolded := True, fail := True,
     counts := \<lparr>n_Unfold = 1, n_GetErrors = 0, n_GetCov = 0, n_GetErrMat = 1, n_RunToy = 0\<rparr>\<rparr>"
  by (simp add: demo_after_toy_def demo_one_toy_def demo_defs)

lemma demo_after_errors_eval:
  "demo_after_errors =
     demo_new\<lparr>vMes := Some [20, 9], eMes := Some [2, 3], covMes := Some [[4, 0], [0, 9]],
       rec := [20, 9], unfolded := True, haveCov := True, haveErrors := True,
       cov := [[4, 0], [0, 9]], variances := [4, 9],
       counts := \<lparr>n_Unfold = 1, n_GetErrors = 1, n_GetCov = 1, n_GetErrMat = 0, n_RunToy = 0\<rparr>\<rparr>"
  by (simp add: demo_after_errors_def demo_defs)

section \<open>Loops that fill a vector or a matrix\<close>

text \<open>A \<open>for\<close> loop that writes entry \<open>i\<close> in step \<open>i\<close> from the old value of that
  entry computes a \<open>map\<close>; writes beyond the end of a list change nothing.\<close>

lemma vec_loop:
  "fold (\<lambda>i v. v[i := h i (v ! i)]) [0..<m] v
     = map (\<lambda>i. if i < m then h i (v ! i) else v ! i) [0..<length v]"
proof (induction m)
  case 0
  show ?case by (simp add: map_nth)
next
  case (Suc m)
  show ?case
    by (rule nth_equalityI) (auto simp: Suc nth_list_update less_Suc_eq)
qed

lemma mat_row_loop:
  "fold (\<lambda>j c. mset c i j (h j (c ! i ! j))) [0..<n] c
     = c[i := fold (\<lambda>j r. r[j := h j (r ! j)]) [0..<n] (c ! i)]"
proof (induction n)
  case 0
  show ?case by simp
next
  case (Suc n)
  let ?w = "fold (\<lambda>j c. mset c i j (h j (c ! i ! j))) [0..<n] c"
  have "fold (\<lambda>j c. mset c i j (h j (c ! i ! j))) [0..<Suc n] c = mset ?w i n (h n (?w ! i ! n))"
    by simp
  also have "\<dots> = c[i := fold (\<lambda>j r. r[j := h j (r ! j)]) [0..<Suc n] (c ! i)]"
    unfolding Suc by (cases "i < length c") (simp_all add: mset_def list_update_beyond)
  finally show ?case .
qed

lemma mat_loop:
  "fold (\<lambda>i c. fold (\<lambda>j c. mset c i j (h i j (c ! i ! j))) [0..<n] c) [0..<m] c
     = map (\<lambda>i. if i < m then map (\<lambda>j. if j < n then h i j (c ! i ! j) else c ! i ! j)
                                  [0..<length (c ! i)]
                  else c ! i) [0..<length c]"
proof -
  let ?H = "\<lambda>i r. map (\<lambda>j. if j < n then h i j (r ! j) else r ! j) [0..<length r]"
  have "fold (\<lambda>i c. fold (\<lambda>j c. mset c i j (h i j (c ! i ! j))) [0..<n] c) [0..<m] c
          = fold (\<lambda>i c. c[i := ?H i (c ! i)]) [0..<m] c"
    by (simp only: mat_row_loop vec_loop)
  also have "\<dots> = map (\<lambda>i. if i < m then ?H i (c ! i) else c ! i) [0..<length c]"
    by (rule vec_loop)
  finally show ?thesis .
qed

lemma diag_loop:
  "fold (\<lambda>i m. mset m i i (g i)) [0..<n] m
     = map (\<lambda>i. if i < n then (m ! i)[i := g i] else m ! i) [0..<length m]"
  unfolding mset_def by (rule vec_loop)

lemma fold_pair:
  "fold (\<lambda>i (a, b). (f i a, g i b)) xs (a0, b0) = (fold f xs a0, fold g xs b0)"
  by (induction xs arbitrary: a0 b0) simp_all

lemma length_VResizeTo [simp]: "length (VResizeTo n v) = n"
  by (simp add: VResizeTo_def)

lemma nth_VResizeTo:
  "j < n \<Longrightarrow> VResizeTo n v ! j = (if j < length v then v ! j else 0)"
  by (simp add: VResizeTo_def nth_append)

lemma length_MResizeTo [simp]: "length (MResizeTo r c m) = r"
  by (simp add: MResizeTo_def)

lemma nth_MResizeTo:
  "i < r \<Longrightarrow> MResizeTo r c m ! i = (if i < length m then VResizeTo c (m ! i) else replicate c 0)"
  by (simp add: MResizeTo_def nth_append)

section \<open>The failure flag\<close>

text \<open>A request on an instance that is neither unfolded nor failed, whose \<open>Unfold\<close> returns
  without setting \<open>_unfolded\<close>, returns false and sets \<open>_fail\<close>; no error hook is called.\<close>

lemma failed_unfold_sets_fail:
  assumes "\<not> unfolded st" and "\<not> fail st" and "run_Unfold hk st = Some s1" and "\<not> unfolded s1"
  shows "UnfoldWithErrors hk w st = Some (False, s1\<lparr>fail := True\<rparr>)"
  using assms by (simp add: UnfoldWithErrors_def)

text \<open>
  C1 (as the code has it). \<open>UnfoldWithErrors\<close> reads \<open>_fail\<close> only while \<open>_unfolded\<close> is
  false. So an instance whose \<open>Unfold\<close> has failed (\<open>_fail\<close> set, \<open>_unfolded\<close> not set)
  refuses every request, for every error treatment: \<open>UnfoldWithErrors\<close> returns false and
  leaves the instance as it is, call counts included, so no hook has run; \<open>Ereco\<close> and
  \<open>ErecoV\<close> return all zeros and \<open>Hreco\<close> the emptied clone of the truth histogram.
  \<open>Reset\<close> and \<open>Setup\<close> clear the flag.
\<close>

theorem failed_unfold_refuses_until_reset:
  assumes "\<not> unfolded st" and "fail st"
  shows "UnfoldWithErrors hk w st = Some (False, st)
       \<and> Ereco hk w st = Some (TMatrixD_new (nt st) (nt st), st)
       \<and> ErecoV hk w st = Some (TVectorD_new (nt st), st)
       \<and> Hreco R hk w st = map_option (\<lambda>r. (TH1_Reset (res_Htruth r), st)) (res st)
       \<and> \<not> fail (Reset st) \<and> \<not> fail (Setup r h st)"
  using assms
  by (simp add: UnfoldWithErrors_def Ereco_def ErecoV_def Hreco_def Reset_def Setup_def
      SetMeasured_def SetResponse_def Let_def split: option.splits)

theorem failed_unfold_refuses_until_reset_witness:
  "\<not> unfolded demo_failed \<and> fail demo_failed
   \<and> UnfoldWithErrors stuck_hooks kCovariance demo_failed = Some (False, demo_failed)
   \<and> Ereco stuck_hooks kCovariance demo_failed = Some ([[0, 0], [0, 0]], demo_failed)
   \<and> Hreco demo_ROOT stuck_hooks kCovariance demo_failed
       = Some (TH1_Reset demo_hist, demo_failed)
   \<and> \<not> fail (Setup demo_res demo_hist demo_failed)"
proof -
  have a: "\<not> unfolded demo_failed" and b: "fail demo_failed"
    by (simp_all add: demo_failed_eval demo_new_eval blank_def)
  have c: "TMatrixD_new (nt demo_failed) (nt demo_failed) = [[0, 0], [0, 0]]"
    by (simp add: demo_failed_eval demo_new_eval blank_def TMatrixD_new_def eval_nat_numeral)
  have d: "res demo_failed = Some demo_res" "res_Htruth demo_res = demo_hist"
    by (simp_all add: demo_failed_eval demo_new_eval blank_def demo_res_def)
  show ?thesis
    using failed_unfold_refuses_until_reset
      [OF a b, of stuck_hooks kCovariance demo_ROOT demo_res demo_hist] a b c d
    by simp
qed

text \<open>
  The claim as stated fails where the flag was set by a failed error computation: with one
  toy, a request for the toy covariance returns false and sets \<open>_fail\<close>, and the next
  request, with no error treatment, succeeds.
\<close>

theorem fail_flag_after_error_request_counterexample:
  "UnfoldWithErrors (base_hooks demo_ROOT Vreco_base) kCovToy demo_one_toy = Some (False, demo_after_toy)
   \<and> fail demo_after_toy
   \<and> UnfoldWithErrors (base_hooks demo_ROOT Vreco_base) kNoError demo_after_toy = Some (True, demo_after_toy)"
proof -
  have "UnfoldWithErrors (base_hooks demo_ROOT Vreco_base) kCovToy demo_one_toy = Some (False, demo_after_toy)"
    unfolding demo_after_toy_eval by (simp add: demo_one_toy_def demo_defs)
  moreover have "fail demo_after_toy"
    by (simp add: demo_after_toy_eval)
  moreover have "UnfoldWithErrors (base_hooks demo_ROOT Vreco_base) kNoError demo_after_toy = Some (True, demo_after_toy)"
    by (simp add: demo_after_toy_eval UnfoldWithErrors_def run_errors_def)
  ultimately show ?thesis by simp
qed

section \<open>Repeated requests\<close>

text \<open>
  C2 (as the code has it). After a request that succeeded, and left \<open>_unfolded\<close> set, the
  same request again returns true and the instance is unchanged: the same \<open>_rec\<close>,
  \<open>_variances\<close>, \<open>_cov\<close> and \<open>_err_mat\<close>, and the same call counts, so that none of
  \<open>Unfold\<close>, \<open>GetErrors\<close>, \<open>GetCov\<close>, \<open>GetErrMat\<close> has been called. This holds for the
  hooks of any subclass.
\<close>

theorem repeated_request_is_cached:
  assumes "UnfoldWithErrors hk w st = Some (True, st')" and "unfolded st'"
  shows "UnfoldWithErrors hk w st' = Some (True, st')"
  using assms
  by (cases w) (auto simp: UnfoldWithErrors_def run_errors_def split: if_splits bind_splits)

theorem repeated_request_is_cached_witness:
  "UnfoldWithErrors (base_hooks demo_ROOT Vreco_base) kErrors demo_new = Some (True, demo_after_errors)
   \<and> unfolded demo_after_errors
   \<and> UnfoldWithErrors (base_hooks demo_ROOT Vreco_base) kErrors demo_after_errors = Some (True, demo_after_errors)"
proof -
  have a: "UnfoldWithErrors (base_hooks demo_ROOT Vreco_base) kErrors demo_new = Some (True, demo_after_errors)"
    unfolding demo_after_errors_eval by (simp add: demo_defs)
  have b: "unfolded demo_after_errors"
    by (simp add: demo_after_errors_eval)
  show ?thesis
    using repeated_request_is_cached [OF a b] a b by simp
qed

text \<open>
  The claim as stated fails for a request whose error computation failed: with one toy,
  the second request for the toy covariance calls \<open>GetErrMat\<close> a second time.
\<close>

theorem failed_toy_request_counterexample:
  "n_GetErrMat (counts demo_after_toy) = 1
   \<and> n_GetErrMat (counts (snd (the (UnfoldWithErrors (base_hooks demo_ROOT Vreco_base) kCovToy demo_after_toy)))) = 2"
  by (simp add: demo_after_toy_eval demo_defs)

section \<open>\<open>Chi2\<close> of an instance that is not unfolded\<close>

text \<open>
  C10. If \<open>_unfolded\<close> is not set after the request that \<open>Chi2\<close> makes through \<open>Ereco\<close> or
  \<open>ErecoV\<close>, then \<open>Chi2\<close> returns -1, for every error treatment and the hooks of any
  subclass.
\<close>

theorem Chi2_not_unfolded:
  assumes "UnfoldWithErrors hk w st = Some (ok, s)" and "\<not> unfolded s"
  shows "Chi2 R hk hTrue w st = Some (- 1, s)"
  using assms
  by (cases w) (auto simp: Chi2_def Ereco_def ErecoV_def Let_def UnfoldWithErrors_def
      run_errors_def split: if_splits bind_splits)

theorem Chi2_not_unfolded_witness:
  "UnfoldWithErrors stuck_hooks kCovariance demo_new = Some (False, demo_failed)
   \<and> \<not> unfolded demo_failed
   \<and> Chi2 demo_ROOT stuck_hooks demo_hist kCovariance demo_new = Some (- 1, demo_failed)"
proof -
  have a: "UnfoldWithErrors stuck_hooks kCovariance demo_new = Some (False, demo_failed)"
    unfolding demo_failed_eval by (simp add: stuck_hooks_def demo_defs)
  have b: "\<not> unfolded demo_failed"
    by (simp add: demo_failed_eval demo_new_eval blank_def)
  show ?thesis
    using Chi2_not_unfolded [OF a b, of demo_ROOT demo_hist] a b by simp
qed

section \<open>The base class's covariance and errors\<close>

lemma Emeasured_keeps:
  "Emeasured st = Some (e, s1) \<Longrightarrow> \<exists>x. s1 = st\<lparr>eMes := x\<rparr>"
  unfolding Emeasured_def Let_def
  by (cases "eMes st"; cases "res st") (auto intro: exI [of _ "eMes st"])

lemma Vmeasured_keeps:
  "Vmeasured st = Some (v, s1) \<Longrightarrow> \<exists>x. s1 = st\<lparr>vMes := x\<rparr>"
  unfolding Vmeasured_def Let_def
  by (cases "vMes st"; cases "res st") (auto intro: exI [of _ "vMes st"])

lemma GetMeasuredCov_keeps:
  assumes "GetMeasuredCov st = Some (c, s1)"
  shows "\<exists>x y. s1 = st\<lparr>eMes := x, covMes := y\<rparr>"
proof (cases "covMes st")
  case (Some a)
  with assms have "s1 = st" by (simp add: GetMeasuredCov_def)
  then have "s1 = st\<lparr>eMes := eMes st, covMes := covMes st\<rparr>" by simp
  then show ?thesis by blast
next
  case None
  with assms obtain err s0 where e: "Emeasured st = Some (err, s0)"
    and s1: "s1 = s0\<lparr>covMes := Some c\<rparr>"
    by (auto simp: GetMeasuredCov_def Let_def split: bind_splits)
  from Emeasured_keeps [OF e] obtain x where "s0 = st\<lparr>eMes := x\<rparr>" by blast
  with s1 show ?thesis by blast
qed

lemma GetMeasuredCov_fields:
  assumes "GetMeasuredCov st = Some (c, s1)"
  shows "nm s1 = nm st \<and> nt s1 = nt st \<and> cov s1 = cov st \<and> haveCov s1 = haveCov st"
proof -
  from GetMeasuredCov_keeps [OF assms] obtain x y where "s1 = st\<lparr>eMes := x, covMes := y\<rparr>"
    by blast
  then show ?thesis by simp
qed


lemma GetCov_base_result:
  assumes "GetMeasuredCov st = Some (covmeas, s1)"
  shows "GetCov_base st =
     Some (s1\<lparr>cov := map (\<lambda>i. map (\<lambda>j.
                        if i < min (nm st) (nt st) \<and> j < min (nm st) (nt st) then covmeas ! i ! j
                        else if i < length (cov st) \<and> j < length (cov st ! i) then cov st ! i ! j
                        else 0) [0..<nt st]) [0..<nt st],
              haveCov := True\<rparr>)"
proof -
  let ?nb = "if nm st < nt st then nm st else nt st"
  let ?c0 = "MResizeTo (nt st) (nt st) (cov st)"
  have f: "nm s1 = nm st" "nt s1 = nt st" "cov s1 = cov st"
    using GetMeasuredCov_fields [OF assms] by simp_all
  have nb: "?nb = min (nm st) (nt st)" by simp
  have "fold (\<lambda>i c. fold (\<lambda>j c. mset c i j (covmeas ! i ! j)) [0..<?nb] c) [0..<?nb] ?c0
      = map (\<lambda>i. if i < ?nb then map (\<lambda>j. if j < ?nb then covmeas ! i ! j else ?c0 ! i ! j)
                                    [0..<length (?c0 ! i)]
                   else ?c0 ! i) [0..<length ?c0]"
    by (rule mat_loop [where h = "\<lambda>i j x. covmeas ! i ! j"])
  also have "\<dots> = map (\<lambda>i. map (\<lambda>j.
                        if i < min (nm st) (nt st) \<and> j < min (nm st) (nt st) then covmeas ! i ! j
                        else if i < length (cov st) \<and> j < length (cov st ! i) then cov st ! i ! j
                        else 0) [0..<nt st]) [0..<nt st]"
    unfolding nb by (auto simp: nth_MResizeTo nth_VResizeTo intro!: nth_equalityI)
  finally have F: "fold (\<lambda>i c. fold (\<lambda>j c. mset c i j (covmeas ! i ! j)) [0..<?nb] c) [0..<?nb] ?c0
      = map (\<lambda>i. map (\<lambda>j.
                        if i < min (nm st) (nt st) \<and> j < min (nm st) (nt st) then covmeas ! i ! j
                        else if i < length (cov st) \<and> j < length (cov st ! i) then cov st ! i ! j
                        else 0) [0..<nt st]) [0..<nt st]" .
  have G: "GetCov_base st =
      Some (s1\<lparr>cov := fold (\<lambda>i c. fold (\<lambda>j c. mset c i j (covmeas ! i ! j)) [0..<?nb] c) [0..<?nb] ?c0,
               haveCov := True\<rparr>)"
    using assms by (simp add: GetCov_base_def f Let_def cong: if_cong split del: if_split)
  show ?thesis by (simp only: G F)
qed


lemma GetErrors_base_result:
  "GetErrors_base gc st =
     (if haveCov st
      then Some (st\<lparr>variances := map (\<lambda>i. cov st ! i ! i) [0..<nt st], haveErrors := True\<rparr>)
      else (case call_GetCov gc st of None \<Rightarrow> None
            | Some s2 \<Rightarrow>
                if haveCov s2
                then Some (s2\<lparr>variances := map (\<lambda>i. cov s2 ! i ! i) [0..<nt s2], haveErrors := True\<rparr>)
                else Some s2))"
proof -
  have v: "fold (\<lambda>i v. v[i := cov s ! i ! i]) [0..<nt s] (VResizeTo (nt s) (variances s))
             = map (\<lambda>i. cov s ! i ! i) [0..<nt s]" for s :: "'a RooUnfold"
    using vec_loop [where h = "\<lambda>i x. cov s ! i ! i" and m = "nt s" and v = "VResizeTo (nt s) (variances s)"]
    by simp
  show ?thesis
    by (simp add: GetErrors_base_def v split: option.splits)
qed

text \<open>The base \<open>GetCov\<close> resizes the covariance cache to \<open>_nt\<close> by \<open>_nt\<close> and overwrites
  the block of the first \<open>min (_nm, _nt)\<close> rows and columns with the measured covariance.
  An entry outside the block keeps what the cache held there, and is zero where the cache
  had no entry. The base \<open>GetErrors\<close> calls the virtual \<open>GetCov\<close> first when \<open>_haveCov\<close> is
  not set, and then stores the diagonal of the covariance as the variances (nothing, if
  \<open>_haveCov\<close> is still not set).\<close>

lemma base_GetCov_and_GetErrors:
  assumes "GetMeasuredCov st = Some (covmeas, s1)"
  shows "GetCov_base st =
     Some (s1\<lparr>cov := map (\<lambda>i. map (\<lambda>j.
                        if i < min (nm st) (nt st) \<and> j < min (nm st) (nt st) then covmeas ! i ! j
                        else if i < length (cov st) \<and> j < length (cov st ! i) then cov st ! i ! j
                        else 0) [0..<nt st]) [0..<nt st],
              haveCov := True\<rparr>)
   \<and> GetErrors_base gc st =
     (if haveCov st
      then Some (st\<lparr>variances := map (\<lambda>i. cov st ! i ! i) [0..<nt st], haveErrors := True\<rparr>)
      else (case call_GetCov gc st of None \<Rightarrow> None
            | Some s2 \<Rightarrow>
                if haveCov s2
                then Some (s2\<lparr>variances := map (\<lambda>i. cov s2 ! i ! i) [0..<nt s2], haveErrors := True\<rparr>)
                else Some s2))"
  using GetCov_base_result [OF assms] GetErrors_base_result [of gc st] by simp

text \<open>On an instance whose covariance cache has never been filled, every entry outside the
  block is zero.\<close>

lemma GetCov_base_fresh:
  assumes "GetMeasuredCov st = Some (covmeas, s1)" and "cov st = []"
  shows "GetCov_base st =
     Some (s1\<lparr>cov := map (\<lambda>i. map (\<lambda>j.
                        if i < min (nm st) (nt st) \<and> j < min (nm st) (nt st) then covmeas ! i ! j
                        else 0) [0..<nt st]) [0..<nt st],
              haveCov := True\<rparr>)"
  using GetCov_base_result [OF assms(1)] assms(2) by simp

lemma GetMeasuredCov_demo:
  "GetMeasuredCov demo_new = Some ([[4, 0], [0, 9]], demo_new\<lparr>eMes := Some [2, 3], covMes := Some [[4, 0], [0, 9]]\<rparr>)"
  by (simp add: demo_defs)

lemma base_GetCov_and_GetErrors_demo:
  "cov (the (GetCov_base demo_new)) = [[4, 0], [0, 9]]
   \<and> variances (the (GetErrors_base GetCov_base demo_new)) = [4, 9]
   \<and> n_GetCov (counts (the (GetErrors_base GetCov_base demo_new))) = 1"
  using base_GetCov_and_GetErrors [OF GetMeasuredCov_demo, of GetCov_base]
  by (simp add: demo_new_eval blank_def upt2 call_GetCov_def)

lemma demo_after_cov_eval:
  "demo_after_cov =
     demo_new\<lparr>vMes := Some [20, 9], eMes := Some [2, 3], covMes := Some [[4, 0], [0, 9]],
       rec := [20, 9], unfolded := True, haveCov := True, cov := [[4, 0], [0, 9]],
       counts := \<lparr>n_Unfold = 1, n_GetErrors = 0, n_GetCov = 1, n_GetErrMat = 0, n_RunToy = 0\<rparr>\<rparr>"
  by (simp add: demo_after_cov_def demo_defs)

text \<open>
  C7 (the code departs from the claim). \<open>Reset\<close> clears the flag \<open>_haveCov\<close> but not the
  matrix \<open>_cov\<close>, and \<open>GetCov\<close> writes only the block, relying on zeros elsewhere. Take a
  base-class instance on two bins with errors 2 and 3 on which the covariance has been
  requested, and set it up again with a response of one measured and two truth bins. Its
  measured covariance is now the 1 by 1 matrix \<open>[[4]]\<close>, so the covariance that the claim
  describes is \<open>[[4, 0], [0, 0]]\<close>. \<open>GetCov\<close> leaves the 9 of the earlier covariance at
  \<open>(1, 1)\<close>, outside the block.
\<close>

theorem GetCov_keeps_stale_entry:
  "nm demo_reused = 1 \<and> nt demo_reused = 2 \<and> \<not> haveCov demo_reused
   \<and> map_option fst (GetMeasuredCov demo_reused) = Some [[4]]
   \<and> map_option cov (GetCov_base demo_reused) = Some [[4, 0], [0, 9]]"
  by (simp add: demo_reused_def demo_after_cov_eval demo_narrow_res_def Setup_def Reset_def
      SetResponse_def SetMeasured_def demo_defs)

section \<open>The toy covariance\<close>

lemma mat_fill:
  assumes "length c = n" and "\<And>i. i < n \<Longrightarrow> length (c ! i) = n"
  shows "fold (\<lambda>i c. fold (\<lambda>j c. mset c i j (h i j (c ! i ! j))) [0..<n] c) [0..<n] c
           = map (\<lambda>i. map (\<lambda>j. h i j (c ! i ! j)) [0..<n]) [0..<n]"
  unfolding mat_loop using assms by (auto intro!: nth_equalityI)

lemma accumulate_table:
  "accumulate n x (map f [0..<n], map (\<lambda>i. map (\<lambda>j. g i j) [0..<n]) [0..<n])
     = (map (\<lambda>i. d_add (f i) (x ! i)) [0..<n],
        map (\<lambda>i. map (\<lambda>j. d_add (g i j) (d_mul (x ! i) (x ! j))) [0..<n]) [0..<n])"
proof -
  let ?v = "map f [0..<n]" and ?m = "map (\<lambda>i. map (\<lambda>j. g i j) [0..<n]) [0..<n]"
  have "accumulate n x (?v, ?m)
      = (fold (\<lambda>i v. v[i := d_add (v ! i) (x ! i)]) [0..<n] ?v,
         fold (\<lambda>i m. fold (\<lambda>j m. mset m i j (d_add (m ! i ! j) (d_mul (x ! i) (x ! j)))) [0..<n] m)
           [0..<n] ?m)"
    unfolding accumulate_def Let_def
    by (rule fold_pair [where f = "\<lambda>i v. v[i := d_add (v ! i) (x ! i)]"
          and g = "\<lambda>i m. fold (\<lambda>j m. mset m i j (d_add (m ! i ! j) (d_mul (x ! i) (x ! j)))) [0..<n] m"])
  moreover have "fold (\<lambda>i v. v[i := d_add (v ! i) (x ! i)]) [0..<n] ?v
      = map (\<lambda>i. d_add (f i) (x ! i)) [0..<n]"
    unfolding vec_loop [where h = "\<lambda>i y. d_add y (x ! i)"] by (auto intro!: nth_equalityI)
  moreover have "fold (\<lambda>i m. fold (\<lambda>j m. mset m i j (d_add (m ! i ! j) (d_mul (x ! i) (x ! j)))) [0..<n] m)
                   [0..<n] ?m
      = map (\<lambda>i. map (\<lambda>j. d_add (g i j) (d_mul (x ! i) (x ! j))) [0..<n]) [0..<n]"
    using mat_fill [where h = "\<lambda>i j y. d_add y (d_mul (x ! i) (x ! j))" and c = ?m and n = n]
    by simp
  ultimately show ?thesis by simp
qed

lemma fold_accumulate:
  "fold (accumulate n) xs (map f [0..<n], map (\<lambda>i. map (\<lambda>j. g i j) [0..<n]) [0..<n])
     = (map (\<lambda>i. fold (\<lambda>x t. d_add t (x ! i)) xs (f i)) [0..<n],
        map (\<lambda>i. map (\<lambda>j. fold (\<lambda>x t. d_add t (d_mul (x ! i) (x ! j))) xs (g i j)) [0..<n]) [0..<n])"
proof (induction xs arbitrary: f g)
  case Nil
  show ?case by simp
next
  case (Cons x xs)
  show ?case
    by (simp add: accumulate_table Cons)
qed

lemma moments_from_zero:
  "fold (accumulate n) xs (TVectorD_new n, TMatrixD_new n n)
     = (map (\<lambda>i. sum_d (map (\<lambda>x. x ! i) xs)) [0..<n],
        map (\<lambda>i. map (\<lambda>j. sum_d (map (\<lambda>x. d_mul (x ! i) (x ! j)) xs)) [0..<n]) [0..<n])"
proof -
  have "TVectorD_new n = map (\<lambda>i. 0) [0..<n]"
    by (simp add: TVectorD_new_def map_replicate_const)
  moreover have "TMatrixD_new n n = map (\<lambda>i. map (\<lambda>j. 0) [0..<n]) [0..<n]"
    by (simp add: TMatrixD_new_def map_replicate_const)
  ultimately show ?thesis
    using fold_accumulate [of n xs "\<lambda>i. 0" "\<lambda>i j. 0"]
    by (simp add: sum_d_def fold_map comp_def)
qed


lemma RunToy_keeps:
  assumes "RunToy R s = Some (x, s')"
  shows "\<exists>a b c g. s' = s\<lparr>vMes := a, eMes := b, covL := c, gRandom := g\<rparr>"
proof (cases "haveCovMes s")
  case True
  with assms obtain cm where cm: "covMes s = Some cm"
    by (cases "covMes s") (simp_all add: RunToy_def)
  let ?L = "case covL s of Some l \<Rightarrow> l | None \<Rightarrow> transpose (CholU R cm)"
  let ?s1 = "s\<lparr>covL := Some ?L, gRandom := snd (gaus_vector R (nm s) (gRandom s))\<rparr>"
  from assms True cm obtain vm where "Vmeasured ?s1 = Some (vm, s')"
    by (auto simp: RunToy_def Let_def split: bind_splits)
  from Vmeasured_keeps [OF this] obtain a where "s' = ?s1\<lparr>vMes := a\<rparr>" by blast
  then have "s' = s\<lparr>vMes := a, eMes := eMes s, covL := Some ?L,
                     gRandom := snd (gaus_vector R (nm s) (gRandom s))\<rparr>"
    by simp
  then show ?thesis by blast
next
  case False
  with assms obtain vm s1 err s2 g where v: "Vmeasured s = Some (vm, s1)"
    and e: "Emeasured s1 = Some (err, s2)" and s': "s' = s2\<lparr>gRandom := g\<rparr>"
    by (auto simp: RunToy_def split: bind_splits)
  from Vmeasured_keeps [OF v] obtain a where a: "s1 = s\<lparr>vMes := a\<rparr>" by blast
  from Emeasured_keeps [OF e] obtain b where b: "s2 = s1\<lparr>eMes := b\<rparr>" by blast
  have "s' = s\<lparr>vMes := a, eMes := b, covL := covL s, gRandom := g\<rparr>"
    by (simp add: s' a b)
  then show ?thesis by blast
qed

lemma call_RunToy_fields:
  assumes "call_RunToy R s = Some (x, s')"
  shows "err_mat s' = err_mat s \<and> n_RunToy (counts s') = n_RunToy (counts s) + 1"
proof -
  from assms obtain s0 where r: "RunToy R s = Some (x, s0)"
    and s': "s' = s0\<lparr>counts := (counts s0)\<lparr>n_RunToy := n_RunToy (counts s) + 1\<rparr>\<rparr>"
    by (auto simp: call_RunToy_def)
  from RunToy_keeps [OF r] obtain a b c g
    where "s0 = s\<lparr>vMes := a, eMes := b, covL := c, gRandom := g\<rparr>" by blast
  with s' show ?thesis by simp
qed

lemma toy_runs_fields:
  "toy_runs R vreco k s = Some (xs, s') \<Longrightarrow>
     length xs = k \<and> err_mat s' = err_mat s \<and> n_RunToy (counts s') = n_RunToy (counts s) + k"
proof (induction k arbitrary: s xs)
  case 0
  then show ?case by simp
next
  case (Suc k)
  from Suc.prems obtain newmeas s1 x ys
    where c: "call_RunToy R s = Some (newmeas, s1)"
      and r: "toy_runs R vreco k s1 = Some (ys, s')" and xs: "xs = x # ys"
    by (auto split: bind_splits)
  from Suc.IH [OF r] call_RunToy_fields [OF c] xs show ?case by simp
qed

lemma toy_loop_runs:
  "toy_loop R vreco n k (acc, s)
     = map_option (\<lambda>(xs, s'). (fold (accumulate n) xs acc, s')) (toy_runs R vreco k s)"
proof (induction k arbitrary: acc s)
  case 0
  show ?case by simp
next
  case (Suc k)
  show ?case
    by (auto simp: Suc split: bind_splits option.splits)
qed


text \<open>Every toy returns when the instance has a response and either a measured covariance
  or the Poisson mode: no branch of \<open>RunToy\<close> then enters the resampling loop.\<close>

lemma Vmeasured_returns:
  assumes "res s \<noteq> None"
  shows "\<exists>v s'. Vmeasured s = Some (v, s')"
  using assms by (cases "vMes s") (auto simp: Vmeasured_def Let_def)

lemma Emeasured_returns:
  assumes "res s \<noteq> None"
  shows "\<exists>v s'. Emeasured s = Some (v, s')"
  using assms by (cases "eMes s") (auto simp: Emeasured_def Let_def)

lemma toy_bins_Poisson_returns:
  "UsePoissonToys R \<Longrightarrow> \<exists>a'. toy_bins R err js a = Some a'"
proof (induction js arbitrary: a)
  case Nil
  show ?case by simp
next
  case (Cons i js)
  have "\<exists>b. toy_bin R err i a = Some b"
    using Cons.prems by (simp add: toy_bin_def Let_def)
  then obtain b where "toy_bin R err i a = Some b" by blast
  with Cons.IH [OF Cons.prems, of b] show ?case by simp
qed

lemma RunToy_returns:
  assumes "res s \<noteq> None" and "haveCovMes s \<longrightarrow> covMes s \<noteq> None"
    and "haveCovMes s \<or> UsePoissonToys R"
  shows "\<exists>x s'. RunToy R s = Some (x, s')"
proof (cases "haveCovMes s")
  case True
  with assms(2) obtain cm where cm: "covMes s = Some cm" by auto
  let ?L = "case covL s of Some l \<Rightarrow> l | None \<Rightarrow> transpose (CholU R cm)"
  let ?s1 = "s\<lparr>covL := Some ?L, gRandom := snd (gaus_vector R (nm s) (gRandom s))\<rparr>"
  have "res ?s1 \<noteq> None" using assms(1) by simp
  from Vmeasured_returns [OF this] obtain vm s2 where "Vmeasured ?s1 = Some (vm, s2)" by blast
  with True cm show ?thesis by (simp add: RunToy_def Let_def)
next
  case False
  with assms(3) have p: "UsePoissonToys R" by simp
  from Vmeasured_returns [OF assms(1)] obtain vm s1 where v: "Vmeasured s = Some (vm, s1)" by blast
  from Vmeasured_keeps [OF v] obtain a where "s1 = s\<lparr>vMes := a\<rparr>" by blast
  with assms(1) have "res s1 \<noteq> None" by simp
  from Emeasured_returns [OF this] obtain err s2 where e: "Emeasured s1 = Some (err, s2)" by blast
  from toy_bins_Poisson_returns [OF p] obtain a' where
    "toy_bins R err [0..<nm s2] (vm, gRandom s2) = Some a'" by blast
  with False v e show ?thesis by (cases a') (simp add: RunToy_def)
qed

lemma toy_runs_returns:
  assumes "res s \<noteq> None" and "haveCovMes s \<longrightarrow> covMes s \<noteq> None"
    and "haveCovMes s \<or> UsePoissonToys R" and "\<And>s v. vreco s v \<noteq> None"
  shows "\<exists>xs s'. toy_runs R vreco k s = Some (xs, s')"
  using assms(1-3)
proof (induction k arbitrary: s)
  case 0
  show ?case by simp
next
  case (Suc k)
  from RunToy_returns [OF Suc.prems] obtain x s0 where r: "RunToy R s = Some (x, s0)" by blast
  from RunToy_keeps [OF r] obtain a b c g
    where s0: "s0 = s\<lparr>vMes := a, eMes := b, covL := c, gRandom := g\<rparr>" by blast
  let ?s1 = "s0\<lparr>counts := (counts s0)\<lparr>n_RunToy := n_RunToy (counts s) + 1\<rparr>\<rparr>"
  have c: "call_RunToy R s = Some (x, ?s1)" by (simp add: call_RunToy_def r)
  from assms(4) [of ?s1 x] obtain y where y: "vreco ?s1 x = Some y" by auto
  have "res ?s1 \<noteq> None" "haveCovMes ?s1 \<longrightarrow> covMes ?s1 \<noteq> None" "haveCovMes ?s1 \<or> UsePoissonToys R"
    using Suc.prems by (simp_all add: s0)
  from Suc.IH [OF this] obtain xs s' where "toy_runs R vreco k ?s1 = Some (xs, s')" by blast
  with c y show ?case by simp
qed

text \<open>
  C5 (as the code has it). With a toy count \<open>N > 1\<close>, \<open>GetErrMat\<close> runs the \<open>N\<close> toys one after the
  other and returns exactly when all of them return; they all do when the instance has a
  response and either a stored measured covariance or the Poisson mode, and the
  unfolding of the clone returns. It then has called \<open>RunToy\<close> exactly \<open>N\<close> times, has set
  \<open>_have_err_mat\<close>, and entry \<open>(i,j)\<close> of \<open>_err_mat\<close>, for all \<open>i, j < _nt\<close>, is the value
  of \<open>(\<Sum> x\<^sub>i x\<^sub>j - (\<Sum> x\<^sub>i) (\<Sum> x\<^sub>j) / N) / (N - 1)\<close> in \<open>Double_t\<close> arithmetic: the sums
  run over the reconstructed vectors \<open>x\<close> of the toys in their order, and every addition,
  multiplication, subtraction and division is rounded.
\<close>

theorem toy_covariance_in_double:
  assumes "1 < NToys st"
  shows "GetErrMat_base R vreco st =
           map_option
             (\<lambda>(xs, s1). s1\<lparr>err_mat := map (\<lambda>i. map (\<lambda>j. toy_covariance (NToys st) xs i j)
                                                 [0..<nt st]) [0..<nt st],
                             have_err_mat := True\<rparr>)
             (toy_runs R vreco (nat (NToys st))
                (st\<lparr>err_mat := MResizeTo (nt st) (nt st) (err_mat st)\<rparr>))
       \<and> (\<forall>xs s1. toy_runs R vreco (nat (NToys st))
                     (st\<lparr>err_mat := MResizeTo (nt st) (nt st) (err_mat st)\<rparr>) = Some (xs, s1)
            \<longrightarrow> int (length xs) = NToys st
                \<and> n_RunToy (counts s1) = n_RunToy (counts st) + nat (NToys st))
       \<and> (res st \<noteq> None \<and> (haveCovMes st \<longrightarrow> covMes st \<noteq> None)
            \<and> (haveCovMes st \<or> UsePoissonToys R) \<and> (\<forall>s v. vreco s v \<noteq> None)
            \<longrightarrow> toy_runs R vreco (nat (NToys st))
                  (st\<lparr>err_mat := MResizeTo (nt st) (nt st) (err_mat st)\<rparr>) \<noteq> None)"
proof (intro conjI allI impI)
  let ?n = "nt st"
  let ?s0 = "st\<lparr>err_mat := MResizeTo ?n ?n (err_mat st)\<rparr>"
  let ?F = "\<lambda>xs i j. toy_covariance (NToys st) xs i j"
  show "GetErrMat_base R vreco st =
           map_option (\<lambda>(xs, s1). s1\<lparr>err_mat := map (\<lambda>i. map (\<lambda>j. ?F xs i j) [0..<?n]) [0..<?n],
                                      have_err_mat := True\<rparr>)
             (toy_runs R vreco (nat (NToys st)) ?s0)"
  proof (cases "toy_runs R vreco (nat (NToys st)) ?s0")
    case None
    then have "toy_loop R vreco ?n (nat (NToys st)) ((TVectorD_new ?n, TMatrixD_new ?n ?n), ?s0) = None"
      by (simp add: toy_loop_runs)
    with assms None show ?thesis by (simp add: GetErrMat_base_def Let_def)
  next
    case (Some p)
    obtain xs s1 where p: "p = (xs, s1)" by (cases p)
    let ?xi = "map (\<lambda>i. sum_d (map (\<lambda>x. x ! i) xs)) [0..<?n]"
    let ?xij = "map (\<lambda>i. map (\<lambda>j. sum_d (map (\<lambda>x. d_mul (x ! i) (x ! j)) xs)) [0..<?n]) [0..<?n]"
    let ?G = "\<lambda>i j. d_div (d_sub (?xij ! i ! j) (d_div (d_mul (?xi ! i) (?xi ! j)) (real_of_int (NToys st))))
                       (real_of_int (NToys st - 1))"
    from Some p have runs: "toy_runs R vreco (nat (NToys st)) ?s0 = Some (xs, s1)" by simp
    from toy_runs_fields [OF runs]
    have em: "err_mat s1 = MResizeTo ?n ?n (err_mat st)" by simp
    have loop: "toy_loop R vreco ?n (nat (NToys st)) ((TVectorD_new ?n, TMatrixD_new ?n ?n), ?s0)
                  = Some ((?xi, ?xij), s1)"
      by (simp add: toy_loop_runs runs moments_from_zero)
    have rows: "length (MResizeTo ?n ?n (err_mat st) ! i) = ?n" if "i < ?n" for i
      using that by (simp add: nth_MResizeTo)
    have "fold (\<lambda>i m. fold (\<lambda>j m. mset m i j (?G i j)) [0..<?n] m) [0..<?n] (err_mat s1)
            = map (\<lambda>i. map (\<lambda>j. ?G i j) [0..<?n]) [0..<?n]"
      unfolding em
      by (rule mat_fill [where h = "\<lambda>i j y. ?G i j"]) (simp_all add: rows)
    also have "\<dots> = map (\<lambda>i. map (\<lambda>j. ?F xs i j) [0..<?n]) [0..<?n]"
      by (simp add: toy_covariance_def)
    finally have fill: "fold (\<lambda>i m. fold (\<lambda>j m. mset m i j (?G i j)) [0..<?n] m) [0..<?n] (err_mat s1)
            = map (\<lambda>i. map (\<lambda>j. ?F xs i j) [0..<?n]) [0..<?n]" .
    have "GetErrMat_base R vreco st =
            Some (s1\<lparr>err_mat := fold (\<lambda>i m. fold (\<lambda>j m. mset m i j (?G i j)) [0..<?n] m) [0..<?n] (err_mat s1),
                     have_err_mat := True\<rparr>)"
      using assms by (simp add: GetErrMat_base_def Let_def loop)
    with fill runs show ?thesis by simp
  qed
next
  fix xs s1
  assume "toy_runs R vreco (nat (NToys st)) (st\<lparr>err_mat := MResizeTo (nt st) (nt st) (err_mat st)\<rparr>)
            = Some (xs, s1)"
  from toy_runs_fields [OF this] assms
  show "int (length xs) = NToys st" and "n_RunToy (counts s1) = n_RunToy (counts st) + nat (NToys st)"
    by simp_all
next
  let ?s0 = "st\<lparr>err_mat := MResizeTo (nt st) (nt st) (err_mat st)\<rparr>"
  assume h: "res st \<noteq> None \<and> (haveCovMes st \<longrightarrow> covMes st \<noteq> None)
            \<and> (haveCovMes st \<or> UsePoissonToys R) \<and> (\<forall>s v. vreco s v \<noteq> None)"
  then have "res ?s0 \<noteq> None" "haveCovMes ?s0 \<longrightarrow> covMes ?s0 \<noteq> None" "haveCovMes ?s0 \<or> UsePoissonToys R"
    and v: "\<And>s v. vreco s v \<noteq> None"
    by simp_all
  from toy_runs_returns [OF this]
  show "toy_runs R vreco (nat (NToys st)) ?s0 \<noteq> None" by auto
qed

lemma demo_two_toys_eval:
  "demo_two_toys = demo_new\<lparr>vMes := Some [20, 9], eMes := Some [2, 3], covMes := Some [[4, 0], [0, 9]],
       rec := [20, 9], unfolded := True, haveCov := True, cov := [[4, 0], [0, 9]], NToys := 2,
       counts := \<lparr>n_Unfold = 1, n_GetErrors = 0, n_GetCov = 1, n_GetErrMat = 0, n_RunToy = 0\<rparr>\<rparr>"
  by (simp add: demo_two_toys_def demo_after_cov_eval SetNToys_def)

lemmas toy_defs = call_RunToy_def RunToy_def toy_bin_def Vreco_base_def demo_ROOT_def

lemma demo_toy_runs:
  "toy_runs demo_ROOT Vreco_base (nat (NToys demo_two_toys))
      (demo_two_toys\<lparr>err_mat := MResizeTo (nt demo_two_toys) (nt demo_two_toys) (err_mat demo_two_toys)\<rparr>)
     = Some ([[100, 10], [102, 12]],
         demo_two_toys\<lparr>err_mat := [[0, 0], [0, 0]], gRandom := 4,
            counts := \<lparr>n_Unfold = 1, n_GetErrors = 0, n_GetCov = 1, n_GetErrMat = 0, n_RunToy = 2\<rparr>\<rparr>)"
  by (simp add: demo_two_toys_eval demo_defs toy_defs)

theorem toy_covariance_in_double_witness:
  "1 < NToys demo_two_toys
   \<and> res demo_two_toys \<noteq> None \<and> \<not> haveCovMes demo_two_toys \<and> UsePoissonToys demo_ROOT
   \<and> (\<forall>s v. Vreco_base s v \<noteq> None)
   \<and> toy_runs demo_ROOT Vreco_base (nat (NToys demo_two_toys))
        (demo_two_toys\<lparr>err_mat := MResizeTo (nt demo_two_toys) (nt demo_two_toys) (err_mat demo_two_toys)\<rparr>)
       \<noteq> None
   \<and> map_option fst
        (toy_runs demo_ROOT Vreco_base (nat (NToys demo_two_toys))
          (demo_two_toys\<lparr>err_mat := MResizeTo (nt demo_two_toys) (nt demo_two_toys) (err_mat demo_two_toys)\<rparr>))
       = Some [[100, 10], [102, 12]]
   \<and> map_option err_mat (GetErrMat_base demo_ROOT Vreco_base demo_two_toys) = Some [[2, 2], [2, 2]]
   \<and> map_option have_err_mat (GetErrMat_base demo_ROOT Vreco_base demo_two_toys) = Some True
   \<and> map_option (\<lambda>s. n_RunToy (counts s)) (GetErrMat_base demo_ROOT Vreco_base demo_two_toys)
       = Some (n_RunToy (counts demo_two_toys) + 2)"
proof -
  let ?s1 = "demo_two_toys\<lparr>err_mat := [[0, 0], [0, 0]], gRandom := 4,
            counts := \<lparr>n_Unfold = 1, n_GetErrors = 0, n_GetCov = 1, n_GetErrMat = 0, n_RunToy = 2\<rparr>\<rparr>"
  have a: "1 < NToys demo_two_toys" by (simp add: demo_two_toys_eval)
  have n: "NToys demo_two_toys = 2" "nt demo_two_toys = 2"
    by (simp_all add: demo_two_toys_eval demo_new_eval blank_def)
  have h: "res demo_two_toys \<noteq> None" "\<not> haveCovMes demo_two_toys" "UsePoissonToys demo_ROOT"
    by (simp_all add: demo_two_toys_eval demo_new_eval blank_def demo_ROOT_def)
  have v: "\<forall>s v. Vreco_base s v \<noteq> None" by (simp add: Vreco_base_def Let_def)
  note t = toy_covariance_in_double [OF a, where R = demo_ROOT and vreco = Vreco_base]
  from t h v have r: "toy_runs demo_ROOT Vreco_base (nat (NToys demo_two_toys))
        (demo_two_toys\<lparr>err_mat := MResizeTo (nt demo_two_toys) (nt demo_two_toys) (err_mat demo_two_toys)\<rparr>)
       \<noteq> None"
    by blast
  from t have "GetErrMat_base demo_ROOT Vreco_base demo_two_toys =
           map_option
             (\<lambda>(xs, s1). s1\<lparr>err_mat := map (\<lambda>i. map (\<lambda>j. toy_covariance (NToys demo_two_toys) xs i j)
                                                 [0..<nt demo_two_toys]) [0..<nt demo_two_toys],
                             have_err_mat := True\<rparr>)
             (toy_runs demo_ROOT Vreco_base (nat (NToys demo_two_toys))
                (demo_two_toys\<lparr>err_mat := MResizeTo (nt demo_two_toys) (nt demo_two_toys) (err_mat demo_two_toys)\<rparr>))"
    by blast
  then have g: "GetErrMat_base demo_ROOT Vreco_base demo_two_toys
                  = Some (?s1\<lparr>err_mat := [[2, 2], [2, 2]], have_err_mat := True\<rparr>)"
    unfolding demo_toy_runs
    by (simp add: n upt2 toy_covariance_def sum_d_def d_defs rnd_int)
  from t demo_toy_runs
  have c: "n_RunToy (counts ?s1) = n_RunToy (counts demo_two_toys) + nat (NToys demo_two_toys)"
    by blast
  have "map_option (\<lambda>s. n_RunToy (counts s)) (GetErrMat_base demo_ROOT Vreco_base demo_two_toys)
          = Some (n_RunToy (counts ?s1))"
    unfolding g by simp
  with c have k: "map_option (\<lambda>s. n_RunToy (counts s)) (GetErrMat_base demo_ROOT Vreco_base demo_two_toys)
          = Some (n_RunToy (counts demo_two_toys) + 2)"
    by (simp only: n) simp
  have x: "map_option fst
        (toy_runs demo_ROOT Vreco_base (nat (NToys demo_two_toys))
          (demo_two_toys\<lparr>err_mat := MResizeTo (nt demo_two_toys) (nt demo_two_toys) (err_mat demo_two_toys)\<rparr>))
       = Some [[100, 10], [102, 12]]"
    unfolding demo_toy_runs by simp
  have e: "map_option err_mat (GetErrMat_base demo_ROOT Vreco_base demo_two_toys) = Some [[2, 2], [2, 2]]"
    and f: "map_option have_err_mat (GetErrMat_base demo_ROOT Vreco_base demo_two_toys) = Some True"
    unfolding g by simp_all
  from a h v r x e f k show ?thesis by blast
qed

text \<open>
  The claim as stated, with the formula read over the real numbers, fails. On one bin
  with two toys whose reconstructed values are 1000014129 and 1000014130, the empirical
  covariance is \<open>1/2\<close>; \<open>GetErrMat\<close> stores 256, because the second moment and the squared
  first moment, both near \<open>2 \<times> 10\<^sup>1\<^sup>8\<close>, are rounded to multiples of 256 before they are
  subtracted.
\<close>

lemma big_roundings:
  "rnd 1000028258199628641 = 1000028258199628672"
  "rnd 1000028258199628672 = 1000028258199628672"
  "rnd 1000028260199656900 = 1000028260199656960"
  "rnd 2000056518399285632 = 2000056518399285760"
  "rnd 4000113036798571081 = 4000113036798571008"
  "rnd 2000056518399285504 = 2000056518399285504"
  by (subst rnd_at [of 59], simp_all add: round_even_def Let_def)
     (subst rnd_at [of 59], simp_all add: round_even_def Let_def,
      subst rnd_at [of 59], simp_all add: round_even_def Let_def,
      subst rnd_at [of 60], simp_all add: round_even_def Let_def,
      subst rnd_at [of 61], simp_all add: round_even_def Let_def,
      subst rnd_at [of 60], simp_all add: round_even_def Let_def)

theorem toy_covariance_rounding_counterexample:
  "map_option err_mat (GetErrMat_base demo_ROOT_big Vreco_base demo_big) = Some [[256]]
   \<and> map_option fst (toy_runs demo_ROOT_big Vreco_base 2 (demo_big\<lparr>err_mat := [[0]]\<rparr>))
       = Some [[1000014129], [1000014130]]
   \<and> empirical_covariance 2 [[1000014129], [1000014130]] 0 0 = 1 / 2"
proof -
  have b: "demo_big = blank\<lparr>res := Some demo_one_res, meas := Some demo_hist, nm := 1, nt := 1,
                            NToys := 2\<rparr>"
    by (simp add: demo_big_def SetNToys_def Setup_def SetMeasured_def SetResponse_def Reset_def
        blank_def demo_one_res_def)
  have "map_option err_mat (GetErrMat_base demo_ROOT_big Vreco_base demo_big) = Some [[256]]"
    unfolding b
    by (simp add: demo_ROOT_big_def demo_one_res_def accumulate_def big_roundings
        call_RunToy_def RunToy_def toy_bin_def Vreco_base_def demo_ROOT_def
        blank_def GetErrMat_base_def Vmeasured_def Emeasured_def H2V_def H2VE_def VResizeTo_def
        MResizeTo_def mset_def TMatrixD_new_def TVectorD_new_def demo_hist_def Let_def
        eval_nat_numeral d_defs rnd_int)
  moreover have "map_option fst (toy_runs demo_ROOT_big Vreco_base 2 (demo_big\<lparr>err_mat := [[0]]\<rparr>))
       = Some [[1000014129], [1000014130]]"
    unfolding b
    by (simp add: demo_ROOT_big_def demo_one_res_def
        call_RunToy_def RunToy_def toy_bin_def Vreco_base_def demo_ROOT_def
        blank_def Vmeasured_def Emeasured_def H2V_def H2VE_def VResizeTo_def
        TVectorD_new_def demo_hist_def Let_def eval_nat_numeral d_defs rnd_int)
  moreover have "empirical_covariance 2 [[1000014129], [1000014130]] 0 0 = 1 / 2"
    by (simp add: empirical_covariance_def)
  ultimately show ?thesis by simp
qed

section \<open>A toy count of one or less\<close>

lemma GetMeasuredCov_returns:
  assumes "res st \<noteq> None"
  shows "\<exists>c s1. GetMeasuredCov st = Some (c, s1)"
  using assms
  by (cases "covMes st"; cases "eMes st")
     (auto simp: GetMeasuredCov_def Emeasured_def Let_def)

lemma GetCov_base_returns:
  assumes "res st \<noteq> None"
  shows "\<exists>e cm c. GetCov_base st = Some (st\<lparr>eMes := e, covMes := cm, cov := c, haveCov := True\<rparr>)"
proof -
  from GetMeasuredCov_returns [OF assms] obtain covmeas s1
    where g: "GetMeasuredCov st = Some (covmeas, s1)" by blast
  from GetMeasuredCov_keeps [OF g] obtain x y where "s1 = st\<lparr>eMes := x, covMes := y\<rparr>" by blast
  with GetCov_base_result [OF g] show ?thesis by auto
qed

lemma Unfold_base_returns:
  assumes "res st \<noteq> None"
  shows "\<exists>v r. Unfold_base st = Some (st\<lparr>vMes := v, rec := r, unfolded := True\<rparr>)"
proof (cases "(if nm st < nt st then nm st else nt st) = 0")
  case True
  then have "Unfold_base st =
      Some (st\<lparr>vMes := vMes st, rec := VResizeTo (nt st) (rec st), unfolded := True\<rparr>)"
    by (simp add: Unfold_base_def Let_def cong: if_cong split del: if_split)
  then show ?thesis by blast
next
  case False
  from assms obtain rr where rr: "res st = Some rr" by auto
  have "\<exists>v x. Vmeasured st = Some (v, st\<lparr>vMes := x\<rparr>)"
  proof (cases "vMes st")
    case None
    then have "Vmeasured st = Some (H2V (meas st) (NbinsMeasured rr) (overflow st),
                 st\<lparr>vMes := Some (H2V (meas st) (NbinsMeasured rr) (overflow st))\<rparr>)"
      by (simp add: Vmeasured_def rr Let_def)
    then show ?thesis by blast
  next
    case (Some a)
    then have "Vmeasured st = Some (a, st\<lparr>vMes := vMes st\<rparr>)" by (simp add: Vmeasured_def)
    then show ?thesis by blast
  qed
  then obtain v x where "Vmeasured st = Some (v, st\<lparr>vMes := x\<rparr>)" by blast
  with False have "Unfold_base st =
      Some (st\<lparr>vMes := x,
              rec := fold (\<lambda>i r. r[i := v ! i]) [0..<if nm st < nt st then nm st else nt st]
                       (VResizeTo (nt st) (rec st)),
              unfolded := True\<rparr>)"
    by (simp add: Unfold_base_def Let_def cong: if_cong split del: if_split)
  then show ?thesis by blast
qed

lemma run_Unfold_base_returns:
  assumes "res st \<noteq> None" and "meas st \<noteq> None"
  shows "\<exists>c v r. run_Unfold (base_hooks R vreco) st =
           Some (st\<lparr>vMes := v, rec := r, unfolded := True, cerr := c,
                   counts := (counts st)\<lparr>n_Unfold := n_Unfold (counts st) + 1\<rparr>\<rparr>)"
proof -
  from assms obtain r m where rm: "res st = Some r" "meas st = Some m" by auto
  let ?s = "if shape_matches m (res_Hmeasured r) then st
            else st\<lparr>cerr := cerr st @ [''Warning: measured histogram does not match measured histogram from RooUnfoldResponse'']\<rparr>"
  have "res ?s \<noteq> None" using rm by simp
  from Unfold_base_returns [OF this] obtain v rr
    where u: "Unfold_base ?s = Some (?s\<lparr>vMes := v, rec := rr, unfolded := True\<rparr>)" by blast
  have "run_Unfold (base_hooks R vreco) st =
          Some (st\<lparr>vMes := v, rec := rr, unfolded := True, cerr := cerr ?s,
                  counts := (counts st)\<lparr>n_Unfold := n_Unfold (counts st) + 1\<rparr>\<rparr>)"
    using rm u by (simp add: run_Unfold_def call_Unfold_def base_hooks_def split: if_splits)
  then show ?thesis by blast
qed

lemma base_request_succeeds:
  assumes "unfolded s" and "res s \<noteq> None" and "w \<noteq> kCovToy"
  shows "\<exists>s'. UnfoldWithErrors (base_hooks R vreco) w s = Some (True, s')"
proof -
  from GetCov_base_returns [OF assms(2)] obtain e cm c
    where gc: "GetCov_base s = Some (s\<lparr>eMes := e, covMes := cm, cov := c, haveCov := True\<rparr>)"
    by blast
  show ?thesis
  proof (cases w)
    case kErrors
    then show ?thesis using assms(1) gc
      by (simp add: UnfoldWithErrors_def run_errors_def base_hooks_def call_GetErrors_def
          GetErrors_base_result call_GetCov_def)
  next
    case kCovariance
    then show ?thesis using assms(1) gc
      by (simp add: UnfoldWithErrors_def run_errors_def base_hooks_def call_GetCov_def)
  qed (use assms in \<open>simp_all add: UnfoldWithErrors_def run_errors_def\<close>)
qed


lemma one_toy_errors_step:
  assumes "unfolded s" and "NToys s \<le> 1" and "\<not> have_err_mat s"
  shows "run_errors (base_hooks R vreco) kCovToy s =
           Some (False, s\<lparr>counts := (counts s)\<lparr>n_GetErrMat := n_GetErrMat (counts s) + 1\<rparr>\<rparr>)"
  using assms
  by (simp add: run_errors_def base_hooks_def call_GetErrMat_def GetErrMat_base_def)

text \<open>
  C4. On a base-class instance that is set up, with a toy count of 1 or less and no toy
  covariance cached: \<open>GetErrMat\<close> returns at once and changes nothing; a request for
  \<open>kCovToy\<close> returns false, has called \<open>RunToy\<close> not once, and leaves \<open>_err_mat\<close> as it
  was and \<open>_have_err_mat\<close> unset; the instance is unfolded afterwards, and every later
  request with another error treatment returns true. (The request does set the member
  \<open>_fail\<close>; \<open>UnfoldWithErrors\<close> does not read it on an unfolded instance.)
\<close>

theorem one_toy_request_fails_alone:
  assumes "res st \<noteq> None" and "meas st \<noteq> None" and "NToys st \<le> 1"
    and "\<not> have_err_mat st" and "unfolded st \<or> \<not> fail st"
  shows "GetErrMat_base R vreco st = Some st
       \<and> (\<exists>s. UnfoldWithErrors (base_hooks R vreco) kCovToy st = Some (False, s)
              \<and> n_RunToy (counts s) = n_RunToy (counts st)
              \<and> err_mat s = err_mat st \<and> \<not> have_err_mat s \<and> unfolded s
              \<and> (\<forall>w. w \<noteq> kCovToy \<longrightarrow>
                    (\<exists>s'. UnfoldWithErrors (base_hooks R vreco) w s = Some (True, s'))))"
proof -
  have skip: "GetErrMat_base R vreco st = Some st"
    using assms(3) by (simp add: GetErrMat_base_def)
  have "\<exists>s1. (if \<not> unfolded st then run_Unfold (base_hooks R vreco) st else Some st) = Some s1
          \<and> unfolded s1 \<and> NToys s1 = NToys st \<and> have_err_mat s1 = have_err_mat st
          \<and> res s1 = res st \<and> err_mat s1 = err_mat st
          \<and> n_RunToy (counts s1) = n_RunToy (counts st)"
  proof (cases "unfolded st")
    case True
    then show ?thesis by simp
  next
    case False
    from run_Unfold_base_returns [OF assms(1,2), where R = R and vreco = vreco] obtain c v r
      where "run_Unfold (base_hooks R vreco) st =
           Some (st\<lparr>vMes := v, rec := r, unfolded := True, cerr := c,
                   counts := (counts st)\<lparr>n_Unfold := n_Unfold (counts st) + 1\<rparr>\<rparr>)"
      by blast
    with False show ?thesis by simp
  qed
  then obtain s1 where u: "(if \<not> unfolded st then run_Unfold (base_hooks R vreco) st else Some st) = Some s1"
    and p: "unfolded s1" "NToys s1 = NToys st" "have_err_mat s1 = have_err_mat st"
      "res s1 = res st" "err_mat s1 = err_mat st" "n_RunToy (counts s1) = n_RunToy (counts st)"
    by blast
  let ?s = "s1\<lparr>counts := (counts s1)\<lparr>n_GetErrMat := n_GetErrMat (counts s1) + 1\<rparr>, fail := True\<rparr>"
  have e: "run_errors (base_hooks R vreco) kCovToy s1 =
             Some (False, s1\<lparr>counts := (counts s1)\<lparr>n_GetErrMat := n_GetErrMat (counts s1) + 1\<rparr>\<rparr>)"
    using one_toy_errors_step [where s = s1 and R = R and vreco = vreco] p assms(3,4) by simp
  have req: "UnfoldWithErrors (base_hooks R vreco) kCovToy st = Some (False, ?s)"
    using assms(5) u p(1) e by (auto simp: UnfoldWithErrors_def)
  have later: "\<exists>s'. UnfoldWithErrors (base_hooks R vreco) w ?s = Some (True, s')" if "w \<noteq> kCovToy" for w
    using base_request_succeeds [where s = "?s" and w = w and R = R and vreco = vreco] that p assms(1) by simp
  show ?thesis
    using skip req later p assms(4) by auto
qed


theorem one_toy_request_fails_alone_witness:
  "res demo_one_toy \<noteq> None \<and> meas demo_one_toy \<noteq> None \<and> NToys demo_one_toy \<le> 1
   \<and> \<not> have_err_mat demo_one_toy \<and> (unfolded demo_one_toy \<or> \<not> fail demo_one_toy)
   \<and> GetErrMat_base demo_ROOT Vreco_base demo_one_toy = Some demo_one_toy
   \<and> UnfoldWithErrors (base_hooks demo_ROOT Vreco_base) kCovToy demo_one_toy = Some (False, demo_after_toy)
   \<and> n_RunToy (counts demo_after_toy) = 0 \<and> unfolded demo_after_toy
   \<and> fst (the (UnfoldWithErrors (base_hooks demo_ROOT Vreco_base) kErrors demo_after_toy))"
proof -
  have h: "res demo_one_toy \<noteq> None" "meas demo_one_toy \<noteq> None" "NToys demo_one_toy \<le> 1"
    "\<not> have_err_mat demo_one_toy" "unfolded demo_one_toy \<or> \<not> fail demo_one_toy"
    by (simp_all add: demo_one_toy_def SetNToys_def demo_new_eval blank_def)
  have r: "UnfoldWithErrors (base_hooks demo_ROOT Vreco_base) kCovToy demo_one_toy = Some (False, demo_after_toy)"
    unfolding demo_after_toy_eval by (simp add: demo_one_toy_def demo_defs)
  have c: "n_RunToy (counts demo_one_toy) = 0"
    by (simp add: demo_one_toy_def SetNToys_def demo_new_eval blank_def)
  from one_toy_request_fails_alone [OF h, of demo_ROOT Vreco_base] r c
  have "GetErrMat_base demo_ROOT Vreco_base demo_one_toy = Some demo_one_toy"
    and "n_RunToy (counts demo_after_toy) = 0" and "unfolded demo_after_toy"
    and "\<exists>s'. UnfoldWithErrors (base_hooks demo_ROOT Vreco_base) kErrors demo_after_toy = Some (True, s')"
    by auto
  with h r show ?thesis by auto
qed

section \<open>\<open>CutZeros\<close> on a zero bin between two correlated bins\<close>

lemma upt3: "[0..<3] = [0, 1, 2]"
  by (simp add: upt_rec)

text \<open>What does hold: the rows removed are those whose sum is exactly zero, in increasing
  order; the result has as many rows fewer as there are such rows; and when every row is
  such a row, the full-covariance branch of \<open>Chi2\<close> returns 0 before it calls the
  determinant or the decomposition.\<close>

lemma length_mset [simp]: "length (mset c i j x) = length c"
  by (simp add: mset_def)

lemma length_fold_mset [simp]: "length (fold (\<lambda>j c. mset c (f j) j (g j)) js c) = length c"
  by (induction js arbitrary: c) simp_all

lemma cut_rows_length:
  "length (fst (fold (\<lambda>i (ereco_cut, v).
             if v < length diags \<and> diags ! v = i then (ereco_cut, v + 1)
             else (fold (\<lambda>j c. mset c (i - v) j (ereco ! i ! (j + v))) [0..<y] ereco_cut, v))
       is a)) = length (fst a)"
  by (induction "is" arbitrary: a) (auto split: prod.splits)

lemma CutZeros_rows: "GetNrows (CutZeros ereco) = GetNrows ereco - snd (zero_rows ereco)"
  unfolding CutZeros_def Let_def cut_rows_def GetNrows_def
  by (simp add: cut_rows_length TMatrixD_new_def)

lemma zero_rows_count:
  "fold (\<lambda>i (diags, missed). if c i then (diags @ [i], missed + 1) else (diags, missed)) [0..<n] ([], 0)
     = (filter c [0..<n], length (filter c [0..<n]))"
  by (induction n) simp_all

lemma zero_rows_eq:
  "zero_rows ereco = (filter (\<lambda>i. coltot ereco i = 0) [0..<GetNrows ereco],
                      length (filter (\<lambda>i. coltot ereco i = 0) [0..<GetNrows ereco]))"
  unfolding zero_rows_def by (rule zero_rows_count)

lemma Chi2_cov_all_zero:
  "snd (zero_rows ereco) = GetNrows ereco \<Longrightarrow> Chi2_cov R hTrue ereco s = (0, s)"
  by (simp add: Chi2_cov_def CutZeros_rows Let_def)

text \<open>The row sums are sums of \<open>Double_t\<close>: in the first row below, \<open>10\<^sup>1\<^sup>6 + 1\<close> is
  rounded to \<open>10\<^sup>1\<^sup>6\<close>, the sum is zero, and the row is cut with the zero row.\<close>

lemma rnd_ten_to_16:
  "rnd 10000000000000000 = 10000000000000000" "rnd 10000000000000001 = 10000000000000000"
  by (subst rnd_at [of 53], simp_all add: round_even_def Let_def)
     (subst rnd_at [of 53], simp_all add: round_even_def Let_def)

lemma CutZeros_row_sum_rounds:
  "coltot [[10000000000000000, 1, - 10000000000000000], [0, 0, 0], [0, 0, 5]] 0 = 0
   \<and> CutZeros [[10000000000000000, 1, - 10000000000000000], [0, 0, 0], [0, 0, 5]] = [[5]]"
  by (simp add: CutZeros_def zero_rows_def cut_rows_def coltot_def GetNrows_def GetNcols_def
      upt3 TMatrixD_new_def mset_def eval_nat_numeral Let_def d_defs rnd_ten_to_16 rnd_int)

text \<open>
  C3 (the code departs from the claim). The covariance below is what \<open>Ereco\<close> hands to
  \<open>Chi2\<close> on a base-class instance whose measured covariance it is. Its bin 1 has an
  all-zero row and column; bins 0 and 2 are correlated. The entries of the original at
  the surviving index pairs are \<open>[[2, 1], [1, 2]]\<close>. \<open>CutZeros\<close> reads column \<open>j + v\<close>,
  with \<open>v\<close> the number of zero rows met so far, instead of the \<open>j\<close>-th surviving column,
  and returns \<open>[[2, 0], [0, 2]]\<close>.
\<close>

theorem CutZeros_middle_zero_bin:
  "fst (the (Ereco (base_hooks demo_ROOT Vreco_base) kCovariance demo_three))
     = [[2, 0, 1], [0, 0, 0], [1, 0, 2]]
   \<and> CutZeros [[2, 0, 1], [0, 0, 0], [1, 0, 2]] = [[2, 0], [0, 2]]"
proof -
  have "fst (the (Ereco (base_hooks demo_ROOT Vreco_base) kCovariance demo_three))
          = [[2, 0, 1], [0, 0, 0], [1, 0, 2]]"
    by (simp add: demo_three_def demo_three_res_def SetMeasuredCov_def Setup_def Reset_def
        SetResponse_def SetMeasured_def Ereco_def massign_def GetNrows_def GetNcols_def upt3
        demo_defs)
  moreover have "CutZeros [[2, 0, 1], [0, 0, 0], [1, 0, 2]] = [[2, 0], [0, 2]]"
    by (simp add: CutZeros_def zero_rows_def cut_rows_def coltot_def GetNrows_def GetNcols_def
        upt3 upt2 TMatrixD_new_def mset_def eval_nat_numeral Let_def d_defs rnd_int)
  ultimately show ?thesis by simp
qed

section \<open>Unknown selections\<close>

lemma base_unknown_treatment_returns:
  assumes "res st \<noteq> None" and "meas st \<noteq> None" and "unfolded st \<or> \<not> fail st"
  shows "\<exists>s. UnfoldWithErrors (base_hooks R vreco) (kOtherTreatment n) st = Some (True, s)"
proof (cases "unfolded st")
  case True
  then show ?thesis by (simp add: UnfoldWithErrors_def run_errors_def)
next
  case False
  from run_Unfold_base_returns [OF assms(1,2), where R = R and vreco = vreco] obtain c v r
    where "run_Unfold (base_hooks R vreco) st =
         Some (st\<lparr>vMes := v, rec := r, unfolded := True, cerr := c,
                 counts := (counts st)\<lparr>n_Unfold := n_Unfold (counts st) + 1\<rparr>\<rparr>)"
    by blast
  with False assms(3) show ?thesis by (simp add: UnfoldWithErrors_def run_errors_def)
qed

lemma unknown_treatment_ok:
  assumes "UnfoldWithErrors hk (kOtherTreatment n) st = Some (ok, s)"
  shows "ok = unfolded s"
  using assms
  by (auto simp: UnfoldWithErrors_def run_errors_def split: if_splits bind_splits)

text \<open>
  C9 (as the code has it). \<open>New\<close> returns the null pointer and writes a line to \<open>cerr\<close> for
  an algorithm value outside the enumeration, for \<open>kTUnfold\<close> when TUnfold is compiled out
  and for \<open>kDagostini\<close> when that backend is compiled out. \<open>Ereco\<close> with an error treatment
  outside the enumeration returns the \<open>_nt\<close> by \<open>_nt\<close> matrix of zeros whenever the
  request it makes through \<open>UnfoldWithErrors\<close> returns; it writes its error line to
  \<open>cerr\<close> only when that request succeeds, which is when the instance is unfolded after
  it, and leaves \<open>cerr\<close> as the request left it otherwise. The request succeeds on every
  base-class instance that is set up and has not failed to unfold.
\<close>

theorem unknown_selections:
  "(alg = kOtherAlgorithm k \<or> alg = kTUnfold \<and> \<not> have_tunfold \<or> alg = kDagostini \<and> \<not> have_dagostini
      \<longrightarrow> fst (New have_tunfold have_dagostini alg regparm name title) = None
          \<and> snd (New have_tunfold have_dagostini alg regparm name title) \<noteq> [])
   \<and> Ereco hk (kOtherTreatment n) st
       = map_option
           (\<lambda>(ok, s). (TMatrixD_new (nt st) (nt st),
                        if ok then s\<lparr>cerr := cerr s @ [''Error, unrecognised error method'']\<rparr> else s))
           (UnfoldWithErrors hk (kOtherTreatment n) st)
   \<and> (\<forall>ok s. UnfoldWithErrors hk (kOtherTreatment n) st = Some (ok, s) \<longrightarrow> ok = unfolded s)
   \<and> (res st \<noteq> None \<and> meas st \<noteq> None \<and> (unfolded st \<or> \<not> fail st)
      \<longrightarrow> (\<exists>s'. UnfoldWithErrors (base_hooks R vreco) (kOtherTreatment n) st = Some (True, s')))"
proof (intro conjI allI impI)
  assume "alg = kOtherAlgorithm k \<or> alg = kTUnfold \<and> \<not> have_tunfold \<or> alg = kDagostini \<and> \<not> have_dagostini"
  then show "fst (New have_tunfold have_dagostini alg regparm name title) = None"
    and "snd (New have_tunfold have_dagostini alg regparm name title) \<noteq> []"
    by (auto simp: New_def Let_def)
next
  show "Ereco hk (kOtherTreatment n) st
       = map_option
           (\<lambda>(ok, s). (TMatrixD_new (nt st) (nt st),
                        if ok then s\<lparr>cerr := cerr s @ [''Error, unrecognised error method'']\<rparr> else s))
           (UnfoldWithErrors hk (kOtherTreatment n) st)"
    by (cases "UnfoldWithErrors hk (kOtherTreatment n) st") (auto simp: Ereco_def Let_def)
next
  fix ok s
  assume "UnfoldWithErrors hk (kOtherTreatment n) st = Some (ok, s)"
  then show "ok = unfolded s" by (rule unknown_treatment_ok)
next
  assume "res st \<noteq> None \<and> meas st \<noteq> None \<and> (unfolded st \<or> \<not> fail st)"
  then show "\<exists>s'. UnfoldWithErrors (base_hooks R vreco) (kOtherTreatment n) st = Some (True, s')"
    using base_unknown_treatment_returns [where st = st and R = R and n = n and vreco = vreco]
    by blast
qed

lemma demo_unknown_eval:
  "UnfoldWithErrors (base_hooks demo_ROOT Vreco_base) (kOtherTreatment 9) demo_new =
     Some (True, demo_new\<lparr>vMes := Some [20, 9], rec := [20, 9], unfolded := True,
       counts := \<lparr>n_Unfold = 1, n_GetErrors = 0, n_GetCov = 0, n_GetErrMat = 0, n_RunToy = 0\<rparr>\<rparr>)"
  by (simp add: demo_defs)

theorem unknown_selections_witness:
  "New True True (kOtherAlgorithm 9) 1 None None = (None, [''Unknown RooUnfold method''])
   \<and> New False True kTUnfold 1 None None = (None, [''TUnfold library is not available''])
   \<and> New True False kDagostini 1 None None = (None, [''RooUnfoldDagostini is not available''])
   \<and> res demo_new \<noteq> None \<and> meas demo_new \<noteq> None \<and> \<not> fail demo_new
   \<and> (\<exists>s'. UnfoldWithErrors (base_hooks demo_ROOT Vreco_base) (kOtherTreatment 9) demo_new = Some (True, s'))
   \<and> Ereco (base_hooks demo_ROOT Vreco_base) (kOtherTreatment 9) demo_new =
       Some ([[0, 0], [0, 0]],
         demo_new\<lparr>vMes := Some [20, 9], rec := [20, 9], unfolded := True,
           cerr := [''Error, unrecognised error method''],
           counts := \<lparr>n_Unfold = 1, n_GetErrors = 0, n_GetCov = 0, n_GetErrMat = 0, n_RunToy = 0\<rparr>\<rparr>)
   \<and> unfolded (demo_new\<lparr>vMes := Some [20, 9], rec := [20, 9], unfolded := True,
           counts := \<lparr>n_Unfold = 1, n_GetErrors = 0, n_GetCov = 0, n_GetErrMat = 0, n_RunToy = 0\<rparr>\<rparr>)"
proof -
  have n: "nt demo_new = 2" "cerr demo_new = []" by (simp_all add: demo_new_eval blank_def)
  have h: "res demo_new \<noteq> None" "meas demo_new \<noteq> None" "\<not> fail demo_new"
    by (simp_all add: demo_new_eval blank_def)
  have z: "TMatrixD_new 2 2 = [[0, 0], [0, 0]]" by (simp add: TMatrixD_new_def eval_nat_numeral)
  have a: "fst (New True True (kOtherAlgorithm 9) 1 None None) = None"
    using unknown_selections [where alg = "kOtherAlgorithm 9" and k = 9 and have_tunfold = True
        and have_dagostini = True and regparm = 1 and name = None and title = None
        and hk = "base_hooks demo_ROOT Vreco_base" and n = 9 and st = demo_new and R = demo_ROOT
        and vreco = Vreco_base] by simp
  have b: "fst (New False True kTUnfold 1 None None) = None"
    using unknown_selections [where alg = kTUnfold and have_tunfold = False
        and have_dagostini = True and regparm = 1 and name = None and title = None
        and hk = "base_hooks demo_ROOT Vreco_base" and n = 9 and st = demo_new and R = demo_ROOT
        and vreco = Vreco_base] by simp
  have c: "fst (New True False kDagostini 1 None None) = None"
    using unknown_selections [where alg = kDagostini and have_tunfold = True
        and have_dagostini = False and regparm = 1 and name = None and title = None
        and hk = "base_hooks demo_ROOT Vreco_base" and n = 9 and st = demo_new and R = demo_ROOT
        and vreco = Vreco_base] by simp
  note t = unknown_selections [where alg = kNone and have_tunfold = True and have_dagostini = True
        and hk = "base_hooks demo_ROOT Vreco_base" and n = 9 and st = demo_new and R = demo_ROOT
        and vreco = Vreco_base]
  from t have "Ereco (base_hooks demo_ROOT Vreco_base) (kOtherTreatment 9) demo_new
       = map_option
           (\<lambda>(ok, s). (TMatrixD_new (nt demo_new) (nt demo_new),
                        if ok then s\<lparr>cerr := cerr s @ [''Error, unrecognised error method'']\<rparr> else s))
           (UnfoldWithErrors (base_hooks demo_ROOT Vreco_base) (kOtherTreatment 9) demo_new)"
    by blast
  then have d: "Ereco (base_hooks demo_ROOT Vreco_base) (kOtherTreatment 9) demo_new =
       Some ([[0, 0], [0, 0]],
         demo_new\<lparr>vMes := Some [20, 9], rec := [20, 9], unfolded := True,
           cerr := [''Error, unrecognised error method''],
           counts := \<lparr>n_Unfold = 1, n_GetErrors = 0, n_GetCov = 0, n_GetErrMat = 0, n_RunToy = 0\<rparr>\<rparr>)"
    unfolding demo_unknown_eval by (simp add: n z)
  from t h have e: "\<exists>s'. UnfoldWithErrors (base_hooks demo_ROOT Vreco_base) (kOtherTreatment 9) demo_new
                      = Some (True, s')"
    by blast
  from t demo_unknown_eval
  have u: "True = unfolded (demo_new\<lparr>vMes := Some [20, 9], rec := [20, 9], unfolded := True,
           counts := \<lparr>n_Unfold = 1, n_GetErrors = 0, n_GetCov = 0, n_GetErrMat = 0, n_RunToy = 0\<rparr>\<rparr>)"
    by blast
  show ?thesis using a b c d e h u by (simp add: New_def)
qed

text \<open>
  The claim as stated ("logs an error message") fails on an instance whose unfolding
  fails: \<open>Ereco\<close> returns at \<open>if (!UnfoldWithErrors (withError)) return Ereco_m\<close>, before the
  \<open>switch\<close> that writes the message. With a subclass whose \<open>Unfold\<close> does not set
  \<open>_unfolded\<close>, the first request with an unknown treatment returns the zero matrix and
  leaves \<open>cerr\<close> empty, and so does the next request on the failed instance.
\<close>

theorem unknown_treatment_without_message_counterexample:
  "Ereco stuck_hooks (kOtherTreatment 9) demo_new = Some ([[0, 0], [0, 0]], demo_failed)
   \<and> Ereco stuck_hooks (kOtherTreatment 9) demo_failed = Some ([[0, 0], [0, 0]], demo_failed)
   \<and> cerr demo_failed = []"
  unfolding demo_failed_eval
  by (simp add: Ereco_def stuck_hooks_def demo_defs)

section \<open>The smearing of the measured bins in \<open>RunToy\<close>\<close>

lemma resample_stop: "\<not> cur < 0 \<Longrightarrow> resample R old_meas e cur g = Some (cur, g)"
  by (subst resample.simps) simp

lemma resample_again:
  "cur < 0 \<Longrightarrow> resample R old_meas e cur g
     = resample R old_meas e (d_add old_meas (fst (Gaus R g 0 e))) (snd (Gaus R g 0 e))"
  by (subst resample.simps) simp


lemma resample_result:
  assumes "resample R old_meas e cur g = Some y"
  shows "0 \<le> fst y \<and> (fst y = cur \<or> (\<exists>g0. fst y = d_add old_meas (fst (Gaus R g0 0 e))))"
proof (rule resample.raw_induct
    [where P = "\<lambda>R old_meas e cur g y.
                  0 \<le> fst y \<and> (fst y = cur \<or> (\<exists>g0. fst y = d_add old_meas (fst (Gaus R g0 0 e))))",
     OF _ assms])
  fix resample' :: "'a ROOT \<Rightarrow> real \<Rightarrow> real \<Rightarrow> real \<Rightarrow> 'a \<Rightarrow> (real \<times> 'a) option"
    and R old_meas e cur g y
  assume IH: "\<And>R old_meas e cur g y. resample' R old_meas e cur g = Some y \<Longrightarrow>
                0 \<le> fst y \<and> (fst y = cur \<or> (\<exists>g0. fst y = d_add old_meas (fst (Gaus R g0 0 e))))"
    and eq: "(if cur < 0
              then resample' R old_meas e (d_add old_meas (fst (Gaus R g 0 e))) (snd (Gaus R g 0 e))
              else Some (cur, g)) = Some y"
  show "0 \<le> fst y \<and> (fst y = cur \<or> (\<exists>g0. fst y = d_add old_meas (fst (Gaus R g0 0 e))))"
  proof (cases "cur < 0")
    case True
    with eq have "resample' R old_meas e (d_add old_meas (fst (Gaus R g 0 e))) (snd (Gaus R g 0 e)) = Some y"
      by simp
    from IH [OF this] show ?thesis by auto
  next
    case False
    with eq show ?thesis by auto
  qed
qed


lemma toy_bin_policy:
  assumes "toy_bin R err i (v, g) = Some (v1, g1)"
  shows "length v1 = length v \<and> (\<forall>k. k \<noteq> i \<longrightarrow> v1 ! k = v ! k)
       \<and> (i < length v \<longrightarrow> toy_policy R (err ! i) (v ! i) (v1 ! i))"
proof (cases "err ! i \<le> 0")
  case True
  with assms show ?thesis by (simp add: toy_bin_def toy_policy_def)
next
  case pos: False
  show ?thesis
  proof (cases "UsePoissonToys R")
    case True
    with pos assms show ?thesis
      by (auto simp: toy_bin_def toy_policy_def Let_def)
  next
    case False
    let ?d = "Gaus R g 0 (err ! i)"
    from pos False assms obtain x where
      r: "resample R (v ! i) (err ! i) (d_add (v ! i) (fst ?d)) (snd ?d) = Some (x, g1)"
      and v1: "v1 = v[i := x]"
      by (auto simp: toy_bin_def Let_def)
    from resample_result [OF r] have "0 \<le> x \<and> (\<exists>g0. x = d_add (v ! i) (fst (Gaus R g0 0 (err ! i))))"
      by auto
    with pos False v1 show ?thesis by (simp add: toy_policy_def)
  qed
qed

lemma toy_bins_policy:
  "toy_bins R err js (v, g) = Some (v', g') \<Longrightarrow> distinct js \<Longrightarrow>
     length v' = length v
     \<and> (\<forall>k < length v. if k \<in> set js then toy_policy R (err ! k) (v ! k) (v' ! k)
                         else v' ! k = v ! k)"
proof (induction js arbitrary: v g)
  case Nil
  then show ?case by simp
next
  case (Cons i js)
  from Cons.prems(1) obtain v1 g1 where b: "toy_bin R err i (v, g) = Some (v1, g1)"
    and r: "toy_bins R err js (v1, g1) = Some (v', g')"
    by (auto split: bind_splits)
  from Cons.prems(2) have d: "distinct js" and ni: "i \<notin> set js" by simp_all
  note p = toy_bin_policy [OF b]
  note q = Cons.IH [OF r d]
  show ?case
  proof (intro conjI allI impI)
    show "length v' = length v" using p q by simp
  next
    fix k assume k: "k < length v"
    show "if k \<in> set (i # js) then toy_policy R (err ! k) (v ! k) (v' ! k) else v' ! k = v ! k"
    proof (cases "k = i")
      case True
      with k p q ni show ?thesis by auto
    next
      case False
      with k p q show ?thesis by auto
    qed
  qed
qed

text \<open>When no full measured covariance is stored and \<open>RunToy\<close> returns, the measurement
  given to the clone has the length of the measured vector, and each of the first \<open>_nm\<close>
  bins obeys \<open>toy_policy\<close>. In Poisson mode \<open>RunToy\<close> returns on every instance that has a
  response (\<open>RunToy_returns\<close>).\<close>

lemma RunToy_policy:
  assumes "\<not> haveCovMes st" and "RunToy R st = Some (newmeas, s')"
    and "Vmeasured st = Some (vm, s1)" and "Emeasured s1 = Some (err, s2)"
  shows "length newmeas = length vm
       \<and> (\<forall>i < length vm. if i < nm st then toy_policy R (err ! i) (vm ! i) (newmeas ! i)
                            else newmeas ! i = vm ! i)"
proof -
  from assms obtain g where t: "toy_bins R err [0..<nm s2] (vm, gRandom s2) = Some (newmeas, g)"
    by (auto simp: RunToy_def split: bind_splits)
  from Vmeasured_keeps [OF assms(3)] obtain a where "s1 = st\<lparr>vMes := a\<rparr>" by blast
  moreover from Emeasured_keeps [OF assms(4)] obtain b where "s2 = s1\<lparr>eMes := b\<rparr>" by blast
  ultimately have "nm s2 = nm st" by simp
  with toy_bins_policy [OF t] show ?thesis by simp
qed

lemma demo_RunToy:
  "RunToy demo_ROOT demo_new
     = Some ([100, 10], demo_new\<lparr>vMes := Some [20, 9], eMes := Some [2, 3], gRandom := 2\<rparr>)"
  by (simp add: demo_defs toy_defs)

lemma demo_RunToy_gaus:
  "RunToy demo_ROOT_gaus demo_new
     = Some ([0, 0], demo_new\<lparr>vMes := Some [20, 9], eMes := Some [2, 3], gRandom := 9\<rparr>)"
  by (simp add: demo_defs toy_defs demo_ROOT_gaus_def resample_stop resample_again)

text \<open>
  C8 (the code departs from the claim). In Poisson mode, on the measurement 20 with error 2
  and 9 with error 3, \<open>RunToy\<close> draws for the first bin from a Poisson distribution of mean
  \<open>(20 / 2)\<^sup>2 = 100\<close> and stores the draw itself: with a generator whose first draw is its
  mean, the clone is given 100 for a bin measured as 20. The draw rescaled back to the
  scale of the measurement, \<open>100 \<times> 2\<^sup>2 / 20\<close>, is 20.
\<close>

theorem Poisson_toy_not_rescaled:
  "\<not> haveCovMes demo_new \<and> UsePoissonToys demo_ROOT
   \<and> Vmeasured demo_new = Some ([20, 9], demo_new\<lparr>vMes := Some [20, 9]\<rparr>)
   \<and> Emeasured (demo_new\<lparr>vMes := Some [20, 9]\<rparr>)
       = Some ([2, 3], demo_new\<lparr>vMes := Some [20, 9], eMes := Some [2, 3]\<rparr>)
   \<and> RunToy demo_ROOT demo_new
       = Some ([100, 10], demo_new\<lparr>vMes := Some [20, 9], eMes := Some [2, 3], gRandom := 2\<rparr>)
   \<and> fst (Poisson demo_ROOT (gRandom demo_new) (d_mul (d_div 20 2) (d_div 20 2))) = 100
   \<and> d_div (d_mul 100 (d_mul 2 2)) 20 = 20"
proof -
  have "\<not> haveCovMes demo_new" and "UsePoissonToys demo_ROOT"
    by (simp_all add: demo_new_eval blank_def demo_ROOT_def)
  moreover have "Vmeasured demo_new = Some ([20, 9], demo_new\<lparr>vMes := Some [20, 9]\<rparr>)"
    by (simp add: demo_defs)
  moreover have "Emeasured (demo_new\<lparr>vMes := Some [20, 9]\<rparr>)
       = Some ([2, 3], demo_new\<lparr>vMes := Some [20, 9], eMes := Some [2, 3]\<rparr>)"
    by (simp add: demo_defs)
  moreover have "fst (Poisson demo_ROOT (gRandom demo_new) (d_mul (d_div 20 2) (d_div 20 2))) = 100"
    by (simp add: demo_ROOT_def demo_new_eval blank_def d_defs rnd_int)
  moreover have "d_div (d_mul 100 (d_mul 2 2)) 20 = 20"
    by (simp add: d_defs rnd_int)
  ultimately show ?thesis using demo_RunToy by simp
qed

section \<open>The two paths of \<open>Chi2\<close> on a diagonal covariance\<close>

































end
